theory Spec2Isabelle
  imports Complex_Main "HOL-Library.Sublist"
begin

section \<open>JavaScript strings\<close>

text \<open>
  A JavaScript string is a sequence of UTF-16 code units. The regular expressions of
  the geocoding service mention the degree sign (U+00B0), the prime (U+2032) and the
  double prime (U+2033), and \<^verbatim>\<open>\s\<close> and \<^verbatim>\<open>trim\<close> know white space beyond ASCII, so a
  code unit is modelled by its number and a string by the list of its code units.
  \<open>str\<close> reads an ASCII literal of the source.
\<close>

type_synonym jschar = nat
type_synonym jsstring = "jschar list"

definition str :: "string \<Rightarrow> jsstring" where
  "str s = map of_char s"

text \<open>White space and line terminators of ECMAScript: the characters that
  \<^verbatim>\<open>\s\<close> matches and that \<^verbatim>\<open>trim\<close> and \<^verbatim>\<open>parseFloat\<close> strip.\<close>

definition isWhiteSpace :: "jschar \<Rightarrow> bool" where
  "isWhiteSpace c \<longleftrightarrow>
     c = 9 \<or> c = 10 \<or> c = 11 \<or> c = 12 \<or> c = 13 \<or> c = 32 \<or> c = 160 \<or> c = 5760 \<or>
     (8192 \<le> c \<and> c \<le> 8202) \<or> c = 8232 \<or> c = 8233 \<or> c = 8239 \<or> c = 8287 \<or>
     c = 12288 \<or> c = 65279"

text \<open>\<^verbatim>\<open>\d\<close> is the ASCII digits only.\<close>

definition isDigit :: "jschar \<Rightarrow> bool" where
  "isDigit c \<longleftrightarrow> 48 \<le> c \<and> c \<le> 57"

text \<open>\<^verbatim>\<open>[A-Z]\<close> under the flag \<^verbatim>\<open>i\<close> (without \<^verbatim>\<open>u\<close>): the ASCII letters of both
  cases; a non-ASCII code unit never canonicalizes to an ASCII one.\<close>

definition isLetterI :: "jschar \<Rightarrow> bool" where
  "isLetterI c \<longleftrightarrow> (65 \<le> c \<and> c \<le> 90) \<or> (97 \<le> c \<and> c \<le> 122)"

definition oneOf :: "string \<Rightarrow> jschar \<Rightarrow> bool" where
  "oneOf cs c \<longleftrightarrow> c \<in> set (str cs)"

definition trimStart :: "jsstring \<Rightarrow> jsstring" where
  "trimStart s = dropWhile isWhiteSpace s"

definition trim :: "jsstring \<Rightarrow> jsstring" where
  "trim s = rev (dropWhile isWhiteSpace (rev (dropWhile isWhiteSpace s)))"

text \<open>\<^verbatim>\<open>s.includes(k)\<close>: \<open>k\<close> occurs in \<open>s\<close> as a contiguous run.\<close>

fun includesStr :: "jsstring \<Rightarrow> jsstring \<Rightarrow> bool" where
  "includesStr [] k = (k = [])"
| "includesStr (c # cs) k = (prefix k (c # cs) \<or> includesStr cs k)"

text \<open>\<^verbatim>\<open>s.split(',')\<close>: the pieces between the separators; never an empty array.\<close>

fun splitOn :: "jschar \<Rightarrow> jsstring \<Rightarrow> jsstring list" where
  "splitOn sep [] = [[]]"
| "splitOn sep (c # cs) =
     (if c = sep then [] # splitOn sep cs
      else (case splitOn sep cs of [] \<Rightarrow> [[c]] | p # ps \<Rightarrow> (c # p) # ps))"

text \<open>\<^verbatim>\<open>s.split(/\s+/)\<close>: the pieces between maximal runs of white space. White
  space at either end leaves an empty piece there, and the empty string gives one
  empty piece.\<close>

function splitWhiteSpace :: "jsstring \<Rightarrow> jsstring list" where
  "splitWhiteSpace s =
     (let w = takeWhile (\<lambda>c. \<not> isWhiteSpace c) s;
          r = dropWhile (\<lambda>c. \<not> isWhiteSpace c) s
      in if r = [] then [w] else w # splitWhiteSpace (dropWhile isWhiteSpace r))"
  by pat_completeness auto
termination
proof (relation "measure length")
  fix s :: jsstring and w r :: jsstring
  assume r: "r = dropWhile (\<lambda>c. \<not> isWhiteSpace c) s" and ne: "r \<noteq> []"
  have "isWhiteSpace (hd r)"
    using hd_dropWhile [of "\<lambda>c. \<not> isWhiteSpace c" s] ne r by simp
  then obtain c cs where rc: "r = c # cs" and "isWhiteSpace c"
    using ne by (cases r) auto
  then have "dropWhile isWhiteSpace r = dropWhile isWhiteSpace cs"
    by simp
  then have "length (dropWhile isWhiteSpace r) < length r"
    using length_dropWhile_le [of isWhiteSpace cs] rc by simp
  moreover have "length r \<le> length s"
    unfolding r by (rule length_dropWhile_le)
  ultimately show "(dropWhile isWhiteSpace r, s) \<in> measure length"
    by simp
qed simp

section \<open>Regular expressions\<close>

text \<open>
  The patterns of the service use character classes, concatenation and the greedy
  quantifiers \<^verbatim>\<open>?\<close>, \<^verbatim>\<open>*\<close>, \<^verbatim>\<open>+\<close> and \<^verbatim>\<open>{m,n}\<close>; all of them are anchored at both
  ends. \<open>run r s\<close> matches \<open>r\<close> at the start of \<open>s\<close> and lists what may remain of \<open>s\<close>,
  in the order in which a backtracking matcher tries the alternatives (a greedy
  quantifier takes an iteration before it does without). As in ECMAScript, an
  iteration of \<^verbatim>\<open>*\<close> that consumes nothing is not repeated.
\<close>

datatype rx =
    Eps
  | Cls "jschar \<Rightarrow> bool"
  | Seq rx rx
  | Opt rx
  | Star rx

function run :: "rx \<Rightarrow> jsstring \<Rightarrow> jsstring list" where
  "run Eps s = [s]"
| "run (Cls p) s = (case s of [] \<Rightarrow> [] | c # cs \<Rightarrow> if p c then [cs] else [])"
| "run (Seq a b) s =
     concat (map (\<lambda>s'. if length s' \<le> length s then run b s' else []) (run a s))"
| "run (Opt a) s = run a s @ [s]"
| "run (Star a) s =
     concat (map (\<lambda>s'. if length s' < length s then run (Star a) s' else []) (run a s)) @ [s]"
  by pat_completeness auto
termination
  by (relation "measures [\<lambda>(r, s). length s, \<lambda>(r, s). size r]") auto

definition Plus :: "rx \<Rightarrow> rx" where
  "Plus r = Seq r (Star r)"

fun seqs :: "rx list \<Rightarrow> rx" where
  "seqs [] = Eps"
| "seqs (r # rs) = Seq r (seqs rs)"

text \<open>\<^verbatim>\<open>r{n}\<close> and \<^verbatim>\<open>r{n,n+k}\<close>.\<close>

fun times :: "nat \<Rightarrow> rx \<Rightarrow> rx" where
  "times 0 r = Eps"
| "times (Suc n) r = Seq r (times n r)"

fun upTo :: "nat \<Rightarrow> rx \<Rightarrow> rx" where
  "upTo 0 r = Eps"
| "upTo (Suc k) r = Opt (Seq r (upTo k r))"

definition between :: "nat \<Rightarrow> nat \<Rightarrow> rx \<Rightarrow> rx" where
  "between m n r = Seq (times m r) (upTo (n - m) r)"

text \<open>\<^verbatim>\<open>/^r$/.test(s)\<close>: some way of matching \<open>r\<close> uses up all of \<open>s\<close>.\<close>

definition test :: "rx \<Rightarrow> jsstring \<Rightarrow> bool" where
  "test r s \<longleftrightarrow> [] \<in> set (run r s)"

text \<open>
  \<^verbatim>\<open>s.match(/^...$/)\<close> for a pattern that is a concatenation of pieces, some of them
  capture groups: the pieces are matched from left to right, backtracking into the
  earlier ones, and the first complete match gives the captured substrings.
\<close>

fun firstSome :: "('a \<Rightarrow> 'b option) \<Rightarrow> 'a list \<Rightarrow> 'b option" where
  "firstSome f [] = None"
| "firstSome f (x # xs) = (case f x of Some y \<Rightarrow> Some y | None \<Rightarrow> firstSome f xs)"

primrec matchGroups :: "(bool \<times> rx) list \<Rightarrow> jsstring \<Rightarrow> jsstring list option" where
  "matchGroups [] s = (if s = [] then Some [] else None)"
| "matchGroups (p # ps) s =
     firstSome
       (\<lambda>rest. case matchGroups ps rest of
                  None \<Rightarrow> None
                | Some cs \<Rightarrow>
                    Some (if fst p then take (length s - length rest) s # cs else cs))
       (run (snd p) s)"

subsection \<open>The language of a pattern\<close>

text \<open>
  What a pattern matches, stated without a matching order: \<open>matches r s\<close> holds when
  the whole of \<open>s\<close> is in the language of \<open>r\<close>; \<open>matchesPieces ps s cs\<close> holds when
  \<open>s\<close> splits into consecutive parts matched by the pieces \<open>ps\<close>, with \<open>cs\<close> the
  parts of the capture groups; \<open>mayContain r c\<close> says that the character \<open>c\<close>
  satisfies some character class of \<open>r\<close>.
\<close>

inductive matches :: "rx \<Rightarrow> jsstring \<Rightarrow> bool" where
  matches_Eps: "matches Eps []"
| matches_Cls: "p c \<Longrightarrow> matches (Cls p) [c]"
| matches_Seq: "matches a u \<Longrightarrow> matches b v \<Longrightarrow> matches (Seq a b) (u @ v)"
| matches_Opt_none: "matches (Opt a) []"
| matches_Opt_some: "matches a u \<Longrightarrow> matches (Opt a) u"
| matches_Star_none: "matches (Star a) []"
| matches_Star_step: "matches a u \<Longrightarrow> matches (Star a) v \<Longrightarrow> matches (Star a) (u @ v)"

inductive matchesPieces :: "(bool \<times> rx) list \<Rightarrow> jsstring \<Rightarrow> jsstring list \<Rightarrow> bool" where
  pieces_Nil: "matchesPieces [] [] []"
| pieces_group:
    "matches r m \<Longrightarrow> matchesPieces ps rest cs \<Longrightarrow>
     matchesPieces ((True, r) # ps) (m @ rest) (m # cs)"
| pieces_plain:
    "matches r m \<Longrightarrow> matchesPieces ps rest cs \<Longrightarrow>
     matchesPieces ((False, r) # ps) (m @ rest) cs"

fun mayContain :: "rx \<Rightarrow> jschar \<Rightarrow> bool" where
  "mayContain Eps c = False"
| "mayContain (Cls p) c = p c"
| "mayContain (Seq a b) c = (mayContain a c \<or> mayContain b c)"
| "mayContain (Opt a) c = mayContain a c"
| "mayContain (Star a) c = mayContain a c"

section \<open>JavaScript numbers\<close>

text \<open>
  A JavaScript number is an IEEE 754 binary64 value: not-a-number, an infinity, or a
  finite value, kept here as the real number it denotes. The two zeros are identified:
  the service never divides by a coordinate nor looks at the sign of a zero, and both
  print as \<^verbatim>\<open>0\<close>. \<open>toDouble\<close> rounds a real number to the nearest binary64 value, ties
  to even, as every arithmetic operation and every conversion from text does.
\<close>

datatype jsnumber = NaN | PosInfinity | NegInfinity | Fin real

definition pow2 :: "int \<Rightarrow> real" where
  "pow2 e = (if 0 \<le> e then 2 ^ nat e else 1 / 2 ^ nat (- e))"

definition pow10 :: "int \<Rightarrow> real" where
  "pow10 e = (if 0 \<le> e then 10 ^ nat e else 1 / 10 ^ nat (- e))"

text \<open>The number of digits of a positive integer in base \<open>b\<close>, and the exponent
  \<open>n\<close> of a positive number in that base: \<open>b ^ (n - 1) \<le> q < b ^ n\<close>.\<close>

function digitCount :: "int \<Rightarrow> int \<Rightarrow> nat" where
  "digitCount b n = (if n \<le> 0 \<or> b \<le> 1 then 0 else Suc (digitCount b (n div b)))"
  by pat_completeness auto
termination
proof (relation "measure (\<lambda>(b, n). nat n)")
  fix b n :: int
  assume "\<not> (n \<le> 0 \<or> b \<le> 1)"
  then have "n div b < n"
    by (simp add: int_div_less_self)
  then show "((b, n div b), (b, n)) \<in> measure (\<lambda>(b, n). nat n)"
    using \<open>\<not> (n \<le> 0 \<or> b \<le> 1)\<close> by simp
qed simp

definition exponentOf :: "int \<Rightarrow> real \<Rightarrow> int" where
  "exponentOf b q =
     (if 1 \<le> q then int (digitCount b \<lfloor>q\<rfloor>)
      else 1 - int (digitCount b (\<lceil>1 / q\<rceil> - 1)))"

text \<open>The binary exponent of a positive number: \<open>2 ^ e \<le> q < 2 ^ (e + 1)\<close>.\<close>

definition ilog2 :: "real \<Rightarrow> int" where
  "ilog2 q = exponentOf 2 q - 1"

definition roundHalfEven :: "real \<Rightarrow> int" where
  "roundHalfEven x =
     (let f = \<lfloor>x\<rfloor>; d = x - of_int f
      in if d < 1 / 2 then f else if 1 / 2 < d then f + 1 else if even f then f else f + 1)"

definition toDouble :: "real \<Rightarrow> jsnumber" where
  "toDouble q =
     (if q = 0 then Fin 0
      else let a = \<bar>q\<bar>;
               e = ilog2 a;
               overflow = (if 0 < q then PosInfinity else NegInfinity)
           in if 1024 \<le> e then overflow
              else let u = max (e - 52) (- 1074);
                       m = roundHalfEven (a / pow2 u)
                   in if e = 1023 \<and> m = 2 ^ 53 then overflow
                      else Fin (if 0 < q then of_int m * pow2 u else - (of_int m * pow2 u)))"

fun js_neg :: "jsnumber \<Rightarrow> jsnumber" where
  "js_neg NaN = NaN"
| "js_neg PosInfinity = NegInfinity"
| "js_neg NegInfinity = PosInfinity"
| "js_neg (Fin q) = Fin (- q)"

fun js_add :: "jsnumber \<Rightarrow> jsnumber \<Rightarrow> jsnumber" where
  "js_add (Fin a) (Fin b) = toDouble (a + b)"
| "js_add NaN y = NaN"
| "js_add x NaN = NaN"
| "js_add PosInfinity NegInfinity = NaN"
| "js_add NegInfinity PosInfinity = NaN"
| "js_add PosInfinity y = PosInfinity"
| "js_add NegInfinity y = NegInfinity"
| "js_add (Fin a) y = y"

text \<open>Division by a positive finite number (the service divides by 60 and 3600);
  a zero divisor is taken as the positive zero.\<close>

fun js_div :: "jsnumber \<Rightarrow> jsnumber \<Rightarrow> jsnumber" where
  "js_div (Fin a) (Fin b) =
     (if b = 0 then (if a = 0 then NaN else if 0 < a then PosInfinity else NegInfinity)
      else toDouble (a / b))"
| "js_div PosInfinity (Fin b) = (if 0 \<le> b then PosInfinity else NegInfinity)"
| "js_div NegInfinity (Fin b) = (if 0 \<le> b then NegInfinity else PosInfinity)"
| "js_div (Fin a) PosInfinity = Fin 0"
| "js_div (Fin a) NegInfinity = Fin 0"
| "js_div x y = NaN"

text \<open>The comparisons: every comparison with not-a-number is false.\<close>

fun js_lt :: "jsnumber \<Rightarrow> jsnumber \<Rightarrow> bool" where
  "js_lt (Fin a) (Fin b) = (a < b)"
| "js_lt NegInfinity (Fin b) = True"
| "js_lt NegInfinity PosInfinity = True"
| "js_lt (Fin a) PosInfinity = True"
| "js_lt x y = False"

definition js_gt :: "jsnumber \<Rightarrow> jsnumber \<Rightarrow> bool" where
  "js_gt x y = js_lt y x"

definition js_le :: "jsnumber \<Rightarrow> jsnumber \<Rightarrow> bool" where
  "js_le x y \<longleftrightarrow> x \<noteq> NaN \<and> y \<noteq> NaN \<and> (js_lt x y \<or> x = y)"

definition js_ge :: "jsnumber \<Rightarrow> jsnumber \<Rightarrow> bool" where
  "js_ge x y = js_le y x"

definition isNaN :: "jsnumber \<Rightarrow> bool" where
  "isNaN x \<longleftrightarrow> x = NaN"

subsection \<open>\<^verbatim>\<open>parseFloat\<close>\<close>

text \<open>
  \<^verbatim>\<open>parseFloat\<close> skips leading white space and reads the longest prefix that is a
  decimal literal: an optional sign, then \<^verbatim>\<open>Infinity\<close> or digits with an optional
  fraction and an optional exponent (an exponent without digits is not part of the
  literal). Without such a prefix the result is not-a-number. The value is rounded
  correctly, as V8 does.
\<close>

definition digitsValue :: "jsstring \<Rightarrow> nat" where
  "digitsValue ds = foldl (\<lambda>v c. 10 * v + (c - 48)) 0 ds"

definition exponentPart :: "jsstring \<Rightarrow> int" where
  "exponentPart s =
     (case s of
        [] \<Rightarrow> 0
      | c # t \<Rightarrow>
          if c = 101 \<or> c = 69 then
            (let neg = (case t of [] \<Rightarrow> False | d # r \<Rightarrow> d = 45);
                 t' = (case t of [] \<Rightarrow> [] | d # r \<Rightarrow> if d = 43 \<or> d = 45 then r else t);
                 ds = takeWhile isDigit t'
             in if ds = [] then 0
                else if neg then - int (digitsValue ds) else int (digitsValue ds))
          else 0)"

definition parseUnsigned :: "jsstring \<Rightarrow> jsnumber" where
  "parseUnsigned s =
     (if prefix (str ''Infinity'') s then PosInfinity
      else let ip = takeWhile isDigit s;
               r = dropWhile isDigit s;
               afterDot = (case r of [] \<Rightarrow> None | c # t \<Rightarrow> if c = 46 then Some t else None);
               fp = (case afterDot of None \<Rightarrow> [] | Some t \<Rightarrow> takeWhile isDigit t);
               r' = (case afterDot of None \<Rightarrow> r | Some t \<Rightarrow> dropWhile isDigit t)
           in if ip = [] \<and> fp = [] then NaN
              else toDouble (of_nat (digitsValue (ip @ fp))
                             * pow10 (exponentPart r' - int (length fp))))"

definition parseFloat :: "jsstring \<Rightarrow> jsnumber" where
  "parseFloat s =
     (case trimStart s of
        [] \<Rightarrow> NaN
      | c # r \<Rightarrow>
          if c = 45 then js_neg (parseUnsigned r)
          else if c = 43 then parseUnsigned r
          else parseUnsigned (c # r))"

subsection \<open>Number to string\<close>

text \<open>
  \<^verbatim>\<open>String(x)\<close>, which a template literal applies to a number: the shortest decimal
  digits \<open>s\<close> and the exponent \<open>n\<close> with \<open>s \<times> 10 ^ (n - k)\<close> rounding to \<open>x\<close> (the
  closest such \<open>s\<close>, and seventeen digits always suffice), laid out as ECMAScript's
  \<^verbatim>\<open>Number::toString\<close> prescribes.
\<close>

function digitsOf :: "nat \<Rightarrow> jsstring" where
  "digitsOf n = (if n < 10 then [48 + n] else digitsOf (n div 10) @ [48 + n mod 10])"
  by pat_completeness auto
termination
  by (relation "measure (\<lambda>n. n)") auto

text \<open>The decimal exponent of a positive number: \<open>10 ^ (n - 1) \<le> q < 10 ^ n\<close>.\<close>

definition decimalExponent :: "real \<Rightarrow> int" where
  "decimalExponent q = exponentOf 10 q"

definition candidate :: "real \<Rightarrow> int \<Rightarrow> nat \<Rightarrow> (nat \<times> int) option" where
  "candidate q n k =
     (let scale = pow10 (n - int k);
          lo = \<lfloor>q / scale\<rfloor>;
          hi = lo + 1;
          okl = (toDouble (of_int lo * scale) = Fin q);
          okh = (toDouble (of_int hi * scale) = Fin q);
          dl = q - of_int lo * scale;
          dh = of_int hi * scale - q
      in if okl \<and> (\<not> okh \<or> dl < dh \<or> (dl = dh \<and> even lo)) then Some (nat lo, n)
         else if okh then (if hi = 10 ^ k then Some (10 ^ (k - 1), n + 1) else Some (nat hi, n))
         else None)"

definition shortestDigits :: "real \<Rightarrow> nat \<times> int" where
  "shortestDigits q =
     (let n = decimalExponent q
      in case firstSome (candidate q n) [1, 2, 3, 4, 5, 6, 7, 8, 9, 10, 11, 12, 13, 14, 15, 16, 17] of
           Some r \<Rightarrow> r
         | None \<Rightarrow> (nat \<lfloor>q / pow10 (n - 17)\<rfloor>, n))"

definition formatDigits :: "jsstring \<Rightarrow> int \<Rightarrow> jsstring" where
  "formatDigits ds n =
     (let k = int (length ds)
      in if k \<le> n \<and> n \<le> 21 then ds @ replicate (nat (n - k)) 48
         else if 0 < n \<and> n \<le> 21 then take (nat n) ds @ [46] @ drop (nat n) ds
         else if - 6 < n \<and> n \<le> 0 then str ''0.'' @ replicate (nat (- n)) 48 @ ds
         else let e = n - 1;
                  es = (if 0 \<le> e then 43 else 45) # digitsOf (nat \<bar>e\<bar>)
              in if k = 1 then ds @ [101] @ es
                 else take 1 ds @ [46] @ drop 1 ds @ [101] @ es)"

definition positiveToString :: "real \<Rightarrow> jsstring" where
  "positiveToString q = (case shortestDigits q of (s, n) \<Rightarrow> formatDigits (digitsOf s) n)"

fun numberToString :: "jsnumber \<Rightarrow> jsstring" where
  "numberToString NaN = str ''NaN''"
| "numberToString PosInfinity = str ''Infinity''"
| "numberToString NegInfinity = str ''-Infinity''"
| "numberToString (Fin q) =
     (if q = 0 then str ''0''
      else if q < 0 then 45 # positiveToString (- q)
      else positiveToString q)"

section \<open>The geocoding service: classification and normalization\<close>

datatype location_type =
    Coordinates | Zipcode | Landmark | City | Address | Unknown
  | Other jsstring \<comment> \<open>a hint outside the declared union, let through by the cast \<^verbatim>\<open>as any\<close>\<close>

record LocationInput =
  inputType :: location_type
  inputValue :: jsstring
  normalized :: jsstring

subsection \<open>The patterns\<close>

definition digit :: rx where
  "digit = Cls isDigit"

definition whiteSpace :: rx where
  "whiteSpace = Cls isWhiteSpace"

text \<open>\<^verbatim>\<open>-?\d+\.?\d*\<close>\<close>

definition decimalNumber :: rx where
  "decimalNumber = seqs [Opt (Cls (oneOf ''-'')), Plus digit, Opt (Cls (oneOf ''.'')), Star digit]"

text \<open>\<^verbatim>\<open>/^-?\d+\.?\d*,\s*-?\d+\.?\d*$/\<close>\<close>

definition decimalPattern :: rx where
  "decimalPattern = seqs [decimalNumber, Cls (oneOf '',''), Star whiteSpace, decimalNumber]"

text \<open>The degree sign, \<^verbatim>\<open>['\<prime>]\<close> (apostrophe or U+2032) and \<^verbatim>\<open>["\<second>]\<close> (quotation mark
  or U+2033).\<close>

definition degreeSign :: rx where
  "degreeSign = Cls (\<lambda>c. c = 176)"

definition minuteMark :: rx where
  "minuteMark = Cls (\<lambda>c. c = 39 \<or> c = 8242)"

definition secondMark :: rx where
  "secondMark = Cls (\<lambda>c. c = 34 \<or> c = 8243)"

text \<open>\<^verbatim>\<open>\d*\.?\d*\<close>\<close>

definition secondsNumber :: rx where
  "secondsNumber = seqs [Star digit, Opt (Cls (oneOf ''.'')), Star digit]"

text \<open>
  \<^verbatim>\<open>/^(\d+)\<degree>(\d+)['\<prime>](\d*\.?\d*)["\<second>]?([NS])\s+(\d+)\<degree>(\d+)['\<prime>](\d*\.?\d*)["\<second>]?([EW])$/i\<close>:
  the pieces of the pattern, each marked as a capture group or not. Under the flag
  \<^verbatim>\<open>i\<close> the hemisphere letters match in both cases.
\<close>

definition dmsPieces :: "(bool \<times> rx) list" where
  "dmsPieces =
     [(True, Plus digit), (False, degreeSign), (True, Plus digit), (False, minuteMark),
      (True, secondsNumber), (False, Opt secondMark), (True, Cls (oneOf ''NSns'')),
      (False, Plus whiteSpace),
      (True, Plus digit), (False, degreeSign), (True, Plus digit), (False, minuteMark),
      (True, secondsNumber), (False, Opt secondMark), (True, Cls (oneOf ''EWew''))]"

definition dmsPattern :: rx where
  "dmsPattern = seqs (map snd dmsPieces)"

text \<open>\<^verbatim>\<open>/^(-?\d+\.?\d*)\s*[,;]\s*(-?\d+\.?\d*)$/\<close>\<close>

definition separator :: rx where
  "separator = seqs [Star whiteSpace, Cls (oneOf '',;''), Star whiteSpace]"

definition altPieces :: "(bool \<times> rx) list" where
  "altPieces = [(True, decimalNumber), (False, separator), (True, decimalNumber)]"

definition altPattern :: rx where
  "altPattern = seqs (map snd altPieces)"

text \<open>\<^verbatim>\<open>/^\d{5}(-\d{4})?$/\<close>, \<^verbatim>\<open>/^\d{5}-?\d{3}$/\<close>,
  \<^verbatim>\<open>/^[A-Z]{1,2}\d[A-Z\d]?\s?\d[A-Z]{2}$/i\<close>, \<^verbatim>\<open>/^[A-Z]\d[A-Z]\s?\d[A-Z]\d$/i\<close>,
  \<^verbatim>\<open>/^\d{5,10}$/\<close>\<close>

definition letter :: rx where
  "letter = Cls isLetterI"

definition usZip :: rx where
  "usZip = seqs [times 5 digit, Opt (Seq (Cls (oneOf ''-'')) (times 4 digit))]"

definition brCep :: rx where
  "brCep = seqs [times 5 digit, Opt (Cls (oneOf ''-'')), times 3 digit]"

definition ukPostcode :: rx where
  "ukPostcode =
     seqs [between 1 2 letter, digit, Opt (Cls (\<lambda>c. isLetterI c \<or> isDigit c)),
           Opt whiteSpace, digit, times 2 letter]"

definition caPostcode :: rx where
  "caPostcode = seqs [letter, digit, letter, Opt whiteSpace, digit, letter, digit]"

definition genericZip :: rx where
  "genericZip = between 5 10 digit"

subsection \<open>The tests of the classifier\<close>

definition isCoordinates :: "jsstring \<Rightarrow> bool" where
  "isCoordinates input \<longleftrightarrow>
     test decimalPattern input \<or> test dmsPattern input \<or> test altPattern input"

definition isZipCode :: "jsstring \<Rightarrow> bool" where
  "isZipCode input \<longleftrightarrow>
     test usZip input \<or> test brCep input \<or> test ukPostcode input \<or>
     test caPostcode input \<or> test genericZip input"

definition landmarkKeywords :: "jsstring list" where
  "landmarkKeywords = map str
     [''airport'', ''station'', ''hospital'', ''university'', ''college'', ''school'',
      ''museum'', ''park'', ''plaza'', ''square'', ''mall'', ''center'', ''centre'',
      ''tower'', ''bridge'', ''monument'', ''cathedral'', ''church'', ''temple'',
      ''stadium'', ''arena'', ''theater'', ''theatre'', ''cinema'', ''hotel'',
      ''restaurant'', ''cafe'', ''bar'', ''club'', ''gym'', ''library'']"

text \<open>\<^verbatim>\<open>toLowerCase\<close> follows the Unicode case mappings; it is a parameter of the
  model.\<close>

definition isLandmark :: "(jsstring \<Rightarrow> jsstring) \<Rightarrow> jsstring \<Rightarrow> bool" where
  "isLandmark toLowerCase input =
     (let lowerInput = toLowerCase input
      in list_ex (\<lambda>keyword. includesStr lowerInput keyword) landmarkKeywords)"

definition isCity :: "jsstring \<Rightarrow> bool" where
  "isCity input =
     (let words = splitWhiteSpace input
      in length words \<le> 3 \<and> \<not> list_ex isDigit input \<and> list_all (\<lambda>word. length word > 1) words)"

subsection \<open>The normalizers\<close>

text \<open>The hemisphere letter is one of \<^verbatim>\<open>N S E W\<close> in either case, where
  \<^verbatim>\<open>toUpperCase\<close> is the ASCII one.\<close>

definition toUpperCaseAscii :: "jsstring \<Rightarrow> jsstring" where
  "toUpperCaseAscii s = map (\<lambda>c. if 97 \<le> c \<and> c \<le> 122 then c - 32 else c) s"

definition normalizeCoordinates :: "jsstring \<Rightarrow> jsstring" where
  "normalizeCoordinates input =
     (case matchGroups dmsPieces input of
        Some [latDeg, latMin, latSec, latDir, lonDeg, lonMin, lonSec, lonDir] \<Rightarrow>
          (let lat = js_add (js_add (parseFloat latDeg) (js_div (parseFloat latMin) (Fin 60)))
                       (js_div (parseFloat (if latSec = [] then str ''0'' else latSec)) (Fin 3600));
               lon = js_add (js_add (parseFloat lonDeg) (js_div (parseFloat lonMin) (Fin 60)))
                       (js_div (parseFloat (if lonSec = [] then str ''0'' else lonSec)) (Fin 3600));
               lat' = (if toUpperCaseAscii latDir = str ''S'' then js_neg lat else lat);
               lon' = (if toUpperCaseAscii lonDir = str ''W'' then js_neg lon else lon)
           in numberToString lat' @ str '','' @ numberToString lon')
      | _ \<Rightarrow>
          (case matchGroups altPieces input of
             Some [a, b] \<Rightarrow> a @ str '','' @ b
           | _ \<Rightarrow> input))"

text \<open>\<^verbatim>\<open>input.replace(/\s+/g, '').replace(/-/g, '-')\<close>\<close>

definition normalizeZipCode :: "jsstring \<Rightarrow> jsstring" where
  "normalizeZipCode input =
     map (\<lambda>c. if c = 45 then 45 else c) (filter (\<lambda>c. \<not> isWhiteSpace c) input)"

subsection \<open>\<^verbatim>\<open>detectLocationType\<close>\<close>

definition detectLocationType :: "(jsstring \<Rightarrow> jsstring) \<Rightarrow> jsstring \<Rightarrow> LocationInput" where
  "detectLocationType toLowerCase input =
     (let trimmed = trim input
      in if isCoordinates trimmed then
           \<lparr>inputType = Coordinates, inputValue = trimmed,
            normalized = normalizeCoordinates trimmed\<rparr>
         else if isZipCode trimmed then
           \<lparr>inputType = Zipcode, inputValue = trimmed, normalized = normalizeZipCode trimmed\<rparr>
         else if isLandmark toLowerCase trimmed then
           \<lparr>inputType = Landmark, inputValue = trimmed, normalized = trimmed\<rparr>
         else if isCity trimmed then
           \<lparr>inputType = City, inputValue = trimmed, normalized = trimmed\<rparr>
         else
           \<lparr>inputType = Address, inputValue = trimmed, normalized = trimmed\<rparr>)"

section \<open>Errors, results and the providers\<close>

text \<open>
  What an \<^verbatim>\<open>async\<close> function can throw: the typed error of the error middleware
  (status 404), a plain \<^verbatim>\<open>Error\<close>, or the error of a failed HTTP request with the
  status of the response if there was one. An \<^verbatim>\<open>async\<close> function returns
  \<open>error + 'a\<close>, with \<open>Inl\<close> for a rejection.
\<close>

datatype error =
    LocationNotFoundError jsstring
  | Error jsstring
  | AxiosError "nat option" jsstring

fun message :: "error \<Rightarrow> jsstring" where
  "message (LocationNotFoundError location) = str ''Location not found: '' @ location"
| "message (Error m) = m"
| "message (AxiosError status m) = m"

fun isAxiosError :: "error \<Rightarrow> bool" where
  "isAxiosError (AxiosError status m) = True"
| "isAxiosError e = False"

fun responseStatus :: "error \<Rightarrow> nat option" where
  "responseStatus (AxiosError status m) = status"
| "responseStatus e = None"

datatype resolved_by = Coords | Geocoding | ByZipcode | ByLandmark

record ILocation =
  name :: jsstring
  country :: jsstring
  admin1 :: jsstring
  lat :: jsnumber
  lon :: jsnumber
  resolvedBy :: resolved_by

text \<open>An optional string field of a response, and \<^verbatim>\<open>x || d\<close> on it: the empty
  string is falsy as the missing field is.\<close>

definition truthy :: "jsstring option \<Rightarrow> bool" where
  "truthy v \<longleftrightarrow> (case v of None \<Rightarrow> False | Some s \<Rightarrow> s \<noteq> [])"

definition orElse :: "jsstring option \<Rightarrow> jsstring \<Rightarrow> jsstring" where
  "orElse v d = (case v of None \<Rightarrow> d | Some s \<Rightarrow> if s = [] then d else s)"

text \<open>The string of an optional field that was found truthy.\<close>

definition strOf :: "jsstring option \<Rightarrow> jsstring" where
  "strOf v = (case v of None \<Rightarrow> [] | Some s \<Rightarrow> s)"

text \<open>\<^verbatim>\<open>parts.join(', ')\<close>\<close>

fun join :: "jsstring list \<Rightarrow> jsstring" where
  "join [] = []"
| "join [p] = p"
| "join (p # q # ps) = p @ str '', '' @ join (q # ps)"

text \<open>A hit of the Open-Meteo search.\<close>

record OpenMeteoResult =
  om_name :: "jsstring option"
  om_country :: "jsstring option"
  om_admin1 :: "jsstring option"
  om_admin2 :: "jsstring option"
  om_admin3 :: "jsstring option"
  om_feature_code :: "jsstring option"
  om_latitude :: jsnumber
  om_longitude :: jsnumber

text \<open>The answer of Nominatim's reverse lookup (\<^verbatim>\<open>NominatimResult\<close>, with the fields
  of \<^verbatim>\<open>NominatimAddress\<close> that the service reads).\<close>

record NominatimAddress =
  na_suburb :: "jsstring option"
  na_city :: "jsstring option"
  na_municipality :: "jsstring option"
  na_city_district :: "jsstring option"
  na_town :: "jsstring option"
  na_state :: "jsstring option"
  na_region :: "jsstring option"
  na_country :: "jsstring option"

record NominatimResult =
  nr_place_id :: nat
  nr_name :: jsstring
  nr_display_name :: jsstring
  nr_address :: NominatimAddress

text \<open>A hit of Nominatim's search, as the fallback service reads it.\<close>

record SearchAddress =
  sa_city :: "jsstring option"
  sa_town :: "jsstring option"
  sa_village :: "jsstring option"
  sa_hamlet :: "jsstring option"
  sa_municipality :: "jsstring option"
  sa_state :: "jsstring option"
  sa_province :: "jsstring option"
  sa_region :: "jsstring option"
  sa_country :: "jsstring option"

record SearchResult =
  sr_address :: "SearchAddress option"
  sr_display_name :: "jsstring option"
  sr_lat :: jsstring
  sr_lon :: jsstring

record ZipCodeBaseResult =
  postal_code :: jsstring
  country_code :: jsstring
  latitude :: jsstring
  longitude :: jsstring
  city :: jsstring
  state :: jsstring
  city_en :: jsstring
  state_en :: jsstring
  state_code :: jsstring
  province :: jsstring
  province_code :: jsstring

text \<open>
  The world outside the service: the configured API key
  (\<^verbatim>\<open>process.env.ZIPCODEBASE_API_KEY || ''\<close>), the Unicode case conversions of the
  runtime, and what each provider answers to each request, either the data of the
  response or the error that \<^verbatim>\<open>axios.get\<close> throws.
  \<^item> \<open>openMeteoSearchByName n c\<close>: \<^verbatim>\<open>GET /search\<close> with \<^verbatim>\<open>name: n, count: c\<close>, giving
    \<^verbatim>\<open>response.data.results\<close>;
  \<^item> \<open>openMeteoSearchByCoords lat lon c\<close>: \<^verbatim>\<open>GET /search\<close> with
    \<^verbatim>\<open>latitude, longitude, count\<close>;
  \<^item> \<open>nominatimSearch q\<close>: \<^verbatim>\<open>GET /search\<close> of Nominatim with \<^verbatim>\<open>q\<close>, giving
    \<^verbatim>\<open>response.data\<close>;
  \<^item> \<open>nominatimReverse lat lon\<close>: \<^verbatim>\<open>GET /reverse\<close> of Nominatim, giving
    \<^verbatim>\<open>response.data\<close>;
  \<^item> \<open>zipCodeBaseSearch code\<close>: \<^verbatim>\<open>GET /search\<close> of ZipCodeBase with \<^verbatim>\<open>codes: code\<close>,
    giving \<^verbatim>\<open>response.data.results\<close>.
\<close>

record env =
  apiKey :: jsstring
  toLowerCase :: "jsstring \<Rightarrow> jsstring"
  toUpperCase :: "jsstring \<Rightarrow> jsstring"
  openMeteoSearchByName :: "jsstring \<Rightarrow> nat \<Rightarrow> error + OpenMeteoResult list option"
  openMeteoSearchByCoords :: "jsnumber \<Rightarrow> jsnumber \<Rightarrow> nat \<Rightarrow> error + OpenMeteoResult list option"
  nominatimSearch :: "jsstring \<Rightarrow> error + SearchResult list option"
  nominatimReverse :: "jsnumber \<Rightarrow> jsnumber \<Rightarrow> error + NominatimResult option"
  zipCodeBaseSearch :: "jsstring \<Rightarrow> error + (jsstring \<rightharpoonup> ZipCodeBaseResult list) option"

text \<open>\<^verbatim>\<open>!response.data.results || response.data.results.length === 0\<close>\<close>

definition noResults :: "'a list option \<Rightarrow> bool" where
  "noResults results \<longleftrightarrow> (case results of None \<Rightarrow> True | Some rs \<Rightarrow> rs = [])"

section \<open>\<^verbatim>\<open>FallbackGeocodeService\<close>\<close>

definition addressOf :: "SearchResult \<Rightarrow> SearchAddress" where
  "addressOf result =
     (case sr_address result of
        Some a \<Rightarrow> a
      | None \<Rightarrow> \<lparr>sa_city = None, sa_town = None, sa_village = None, sa_hamlet = None,
                  sa_municipality = None, sa_state = None, sa_province = None,
                  sa_region = None, sa_country = None\<rparr>)"

definition fb_buildLocationName :: "SearchResult \<Rightarrow> jsstring" where
  "fb_buildLocationName result =
     (let address = addressOf result;
          parts1 =
            (if truthy (sa_city address) then [strOf (sa_city address)]
             else if truthy (sa_town address) then [strOf (sa_town address)]
             else if truthy (sa_village address) then [strOf (sa_village address)]
             else if truthy (sa_hamlet address) then [strOf (sa_hamlet address)]
             else if truthy (sa_municipality address) then [strOf (sa_municipality address)]
             else if truthy (sr_display_name result) then
               (case splitOn 44 (strOf (sr_display_name result)) of
                  [] \<Rightarrow> []
                | p # ps \<Rightarrow> [trim p])
             else []);
          first = (case parts1 of [] \<Rightarrow> None | p # ps \<Rightarrow> Some p);
          parts2 =
            (if truthy (sa_state address) \<and> sa_state address \<noteq> first then
               parts1 @ [strOf (sa_state address)]
             else if truthy (sa_province address) \<and> sa_province address \<noteq> first then
               parts1 @ [strOf (sa_province address)]
             else parts1);
          parts3 =
            (if truthy (sa_country address) then parts2 @ [strOf (sa_country address)]
             else parts2)
      in if parts3 \<noteq> [] then join parts3
         else orElse (sr_display_name result) (str ''Unknown Location''))"

definition fb_getCountryName :: "SearchResult \<Rightarrow> jsstring" where
  "fb_getCountryName result = orElse (sa_country (addressOf result)) (str ''Unknown'')"

definition fb_getStateName :: "SearchResult \<Rightarrow> jsstring" where
  "fb_getStateName result =
     (let address = addressOf result
      in if truthy (sa_state address) then strOf (sa_state address)
         else if truthy (sa_province address) then strOf (sa_province address)
         else orElse (sa_region address) (str ''Unknown''))"

definition searchLocation :: "env \<Rightarrow> jsstring \<Rightarrow> error + ILocation" where
  "searchLocation e query =
     (case nominatimSearch e query of
        Inl error \<Rightarrow> Inl error
      | Inr data \<Rightarrow>
          (case data of
             None \<Rightarrow> Inl (Error (str ''No results found''))
           | Some [] \<Rightarrow> Inl (Error (str ''No results found''))
           | Some (result # rest) \<Rightarrow>
               Inr \<lparr>name = fb_buildLocationName result,
                    country = fb_getCountryName result,
                    admin1 = fb_getStateName result,
                    lat = parseFloat (sr_lat result),
                    lon = parseFloat (sr_lon result),
                    resolvedBy = Geocoding\<rparr>))"

text \<open>The table of corrections, in the order of its keys.\<close>

definition corrections :: "(jsstring \<times> jsstring list) list" where
  "corrections =
     [(str ''tokio'', [str ''tokyo'', str ''tokyo japan'']),
      (str ''tokyo'', [str ''tokyo japan'', str ''tokyo, japan'']),
      (str ''japan'', [str ''japan'', str ''japan country'']),
      (str ''paris'', [str ''paris france'', str ''paris, france'']),
      (str ''london'', [str ''london england'', str ''london uk'', str ''london, england'']),
      (str ''new york'', [str ''new york city'', str ''new york, ny'', str ''new york city, ny'']),
      (str ''los angeles'', [str ''los angeles, ca'', str ''los angeles california'']),
      (str ''sao paulo'', [str ''sao paulo brazil'', str ''sao paulo, brazil'']),
      (str ''rio de janeiro'', [str ''rio de janeiro brazil'', str ''rio de janeiro, brazil''])]"

definition suffixes :: "jsstring list" where
  "suffixes = [str ''city'', str ''town'', str ''village'', str ''municipality'']"

text \<open>\<^verbatim>\<open>[...new Set(variations)]\<close>: the first occurrence of each string, in order.\<close>

fun dedupe :: "'a list \<Rightarrow> 'a list \<Rightarrow> 'a list" where
  "dedupe seen [] = []"
| "dedupe seen (x # xs) = (if x \<in> set seen then dedupe seen xs else x # dedupe (x # seen) xs)"

definition generateQueryVariations :: "env \<Rightarrow> jsstring \<Rightarrow> jsstring list" where
  "generateQueryVariations e query =
     (let lowerQuery = toLowerCase e query;
          corrected = concat (map (\<lambda>(key, values). if includesStr lowerQuery key then values else [])
                                  corrections);
          suffixed = concat (map (\<lambda>suffix. if \<not> includesStr lowerQuery suffix
                                            then [query @ str '' '' @ suffix] else [])
                                 suffixes)
      in dedupe [] ([query] @ corrected @ suffixed))"

text \<open>The loop of \<^verbatim>\<open>searchWithVariations\<close>: the first query whose result is not the
  placeholder name; a query that throws is skipped.\<close>

fun tryQueries :: "env \<Rightarrow> jsstring list \<Rightarrow> ILocation option" where
  "tryQueries e [] = None"
| "tryQueries e (query # queries) =
     (case searchLocation e query of
        Inr result \<Rightarrow>
          if name result \<noteq> str ''Unknown Location'' then Some result
          else tryQueries e queries
      | Inl error \<Rightarrow> tryQueries e queries)"

definition searchWithVariations :: "env \<Rightarrow> jsstring \<Rightarrow> error + ILocation" where
  "searchWithVariations e originalQuery =
     (case tryQueries e (generateQueryVariations e originalQuery) of
        Some result \<Rightarrow> Inr result
      | None \<Rightarrow> Inl (Error (str ''No fallback location found for: '' @ originalQuery)))"

section \<open>\<^verbatim>\<open>ZipCodeBaseService\<close>\<close>

text \<open>\<^verbatim>\<open>postalCode.replace(/\D/g, '')\<close>, and the shape of a Brazilian CEP for eight
  digits.\<close>

definition normalizePostalCode :: "jsstring \<Rightarrow> jsstring" where
  "normalizePostalCode postalCode =
     (let cleaned = filter isDigit postalCode
      in if length cleaned = 8 then take 5 cleaned @ str ''-'' @ drop 5 cleaned
         else cleaned)"

definition isAvailable :: "env \<Rightarrow> bool" where
  "isAvailable e \<longleftrightarrow> apiKey e \<noteq> []"

definition searchPostalCode :: "env \<Rightarrow> jsstring \<Rightarrow> error + ZipCodeBaseResult list" where
  "searchPostalCode e postalCode =
     (if apiKey e = [] then Inl (Error (str ''ZipCodeBase API key not configured''))
      else let normalizedCode = normalizePostalCode postalCode
           in case zipCodeBaseSearch e normalizedCode of
                Inr results \<Rightarrow>
                  (case results of
                     None \<Rightarrow> Inr []
                   | Some byCode \<Rightarrow>
                       (case byCode normalizedCode of None \<Rightarrow> Inr [] | Some rs \<Rightarrow> Inr rs))
              | Inl error \<Rightarrow>
                  if isAxiosError error then
                    (if responseStatus error = Some 404 then
                       Inl (LocationNotFoundError postalCode)
                     else if responseStatus error = Some 401 then
                       Inl (Error (str ''Invalid ZipCodeBase API key''))
                     else if responseStatus error = Some 429 then
                       Inl (Error (str ''ZipCodeBase API rate limit exceeded''))
                     else Inl (Error (str ''ZipCodeBase API error: '' @ message error)))
                  else Inl error)"

text \<open>\<^verbatim>\<open>x && x.trim()\<close> on a string field.\<close>

definition present :: "jsstring \<Rightarrow> bool" where
  "present x \<longleftrightarrow> x \<noteq> [] \<and> trim x \<noteq> []"

definition validCoordinates :: "ZipCodeBaseResult \<Rightarrow> bool" where
  "validCoordinates result \<longleftrightarrow>
     latitude result \<noteq> [] \<and> longitude result \<noteq> [] \<and>
     (let lat = parseFloat (latitude result);
          lon = parseFloat (longitude result)
      in \<not> isNaN lat \<and> \<not> isNaN lon \<and> js_ge lat (Fin (- 90)) \<and> js_le lat (Fin 90) \<and>
         js_ge lon (Fin (- 180)) \<and> js_le lon (Fin 180))"

definition calculateResultScore :: "ZipCodeBaseResult \<Rightarrow> int" where
  "calculateResultScore result =
     (let score = 0;
          score = (if present (city result) then score + 10 else score);
          score = (if present (state result) then score + 8 else score);
          score = (if present (province result) then score + 5 else score);
          score = (if validCoordinates result then score + 15 else score);
          score = (if present (country_code result) then score + 3 else score)
      in score)"

text \<open>\<^verbatim>\<open>Array.prototype.sort\<close> is stable; its comparator \<^verbatim>\<open>b.score - a.score\<close> puts
  the higher score first.\<close>

definition getBestResult :: "ZipCodeBaseResult list \<Rightarrow> ZipCodeBaseResult option" where
  "getBestResult results =
     (case results of
        [] \<Rightarrow> None
      | [r] \<Rightarrow> Some r
      | _ \<Rightarrow>
          (case sort_key (\<lambda>r. - calculateResultScore r) results of
             [] \<Rightarrow> None
           | best # rest \<Rightarrow> Some best))"

section \<open>\<^verbatim>\<open>NominatimService\<close>\<close>

text \<open>\<^verbatim>\<open>x && x.trim()\<close> on an optional field.\<close>

definition presentOpt :: "jsstring option \<Rightarrow> bool" where
  "presentOpt v \<longleftrightarrow> (case v of None \<Rightarrow> False | Some s \<Rightarrow> present s)"

definition nm_reverseGeocode :: "env \<Rightarrow> jsnumber \<Rightarrow> jsnumber \<Rightarrow> error + NominatimResult option" where
  "nm_reverseGeocode e lat' lon' =
     (case nominatimReverse e lat' lon' of
        Inr data \<Rightarrow>
          (case data of
             None \<Rightarrow> Inr None
           | Some result \<Rightarrow> if nr_place_id result \<noteq> 0 then Inr (Some result) else Inr None)
      | Inl error \<Rightarrow>
          if isAxiosError error then
            (if responseStatus error = Some 429 then
               Inl (Error (str ''Nominatim API rate limit exceeded''))
             else if responseStatus error = Some 404 then
               Inl (LocationNotFoundError (numberToString lat' @ str '','' @ numberToString lon'))
             else Inl (Error (str ''Nominatim API error: '' @ message error)))
          else Inl error)"

definition nm_buildLocationName :: "NominatimResult \<Rightarrow> jsstring" where
  "nm_buildLocationName result =
     (let address = nr_address result;
          parts =
            (if present (nr_name result) then [nr_name result] else []) @
            (if presentOpt (na_city address) \<and> na_city address \<noteq> Some (nr_name result)
             then [strOf (na_city address)] else []) @
            (if presentOpt (na_city_district address) \<and>
                na_city_district address \<noteq> na_city address \<and>
                na_city_district address \<noteq> Some (nr_name result)
             then [strOf (na_city_district address)] else []) @
            (if presentOpt (na_town address) \<and> na_town address \<noteq> na_city address \<and>
                na_town address \<noteq> Some (nr_name result)
             then [strOf (na_town address)] else []) @
            (if presentOpt (na_municipality address) \<and>
                na_municipality address \<noteq> na_city address \<and>
                na_municipality address \<noteq> Some (nr_name result)
             then [strOf (na_municipality address)] else []) @
            (if presentOpt (na_suburb address) \<and> na_suburb address \<noteq> na_city address \<and>
                na_suburb address \<noteq> Some (nr_name result)
             then [strOf (na_suburb address)] else []) @
            (if presentOpt (na_state address) then [strOf (na_state address)] else []) @
            (if presentOpt (na_country address) then [strOf (na_country address)] else [])
      in if parts \<noteq> [] then join parts else nr_display_name result)"

definition nm_getCountryName :: "NominatimResult \<Rightarrow> jsstring" where
  "nm_getCountryName result = orElse (na_country (nr_address result)) (str ''Unknown'')"

definition nm_getStateName :: "NominatimResult \<Rightarrow> jsstring" where
  "nm_getStateName result =
     (if truthy (na_state (nr_address result)) then strOf (na_state (nr_address result))
      else orElse (na_region (nr_address result)) (str ''Unknown''))"

definition nm_getCityName :: "NominatimResult \<Rightarrow> jsstring" where
  "nm_getCityName result =
     (let address = nr_address result
      in if truthy (na_city address) then strOf (na_city address)
         else if truthy (na_city_district address) then strOf (na_city_district address)
         else if truthy (na_town address) then strOf (na_town address)
         else if truthy (na_municipality address) then strOf (na_municipality address)
         else if nr_name result \<noteq> [] then nr_name result
         else str ''Unknown'')"

section \<open>\<^verbatim>\<open>GeocodingService\<close>: the provider chains\<close>

definition countryMap :: "(jsstring \<times> jsstring) list" where
  "countryMap =
     [(str ''BR'', str ''Brazil''), (str ''US'', str ''United States''),
      (str ''CA'', str ''Canada''), (str ''GB'', str ''United Kingdom''),
      (str ''FR'', str ''France''), (str ''DE'', str ''Germany''), (str ''IT'', str ''Italy''),
      (str ''ES'', str ''Spain''), (str ''PT'', str ''Portugal''), (str ''JP'', str ''Japan''),
      (str ''CN'', str ''China''), (str ''IN'', str ''India''), (str ''AU'', str ''Australia''),
      (str ''MX'', str ''Mexico''), (str ''AR'', str ''Argentina''), (str ''CL'', str ''Chile''),
      (str ''CO'', str ''Colombia''), (str ''PE'', str ''Peru''), (str ''VE'', str ''Venezuela''),
      (str ''UY'', str ''Uruguay''), (str ''PY'', str ''Paraguay''), (str ''BO'', str ''Bolivia''),
      (str ''EC'', str ''Ecuador''), (str ''GY'', str ''Guyana''), (str ''SR'', str ''Suriname''),
      (str ''GF'', str ''French Guiana'')]"

definition getCountryName :: "env \<Rightarrow> jsstring \<Rightarrow> jsstring" where
  "getCountryName e countryCode =
     orElse (map_of countryMap (toUpperCase e countryCode)) countryCode"

definition buildLocationNameFromZipCodeBase :: "env \<Rightarrow> ZipCodeBaseResult \<Rightarrow> jsstring" where
  "buildLocationNameFromZipCodeBase e result =
     (let parts =
            (if present (city result) then [city result] else []) @
            (if present (state result) \<and> state result \<noteq> city result then [state result] else []) @
            (if present (province result) \<and> province result \<noteq> city result \<and>
                province result \<noteq> state result
             then [province result] else []) @
            (if present (country_code result) then [getCountryName e (country_code result)]
             else [])
      in if parts \<noteq> [] then join parts else postal_code result)"

subsection \<open>\<^verbatim>\<open>resolveZipCode\<close>\<close>

text \<open>The first block: ZipCodeBase, if a key is configured. \<open>None\<close> stands for leaving
  the block without a \<^verbatim>\<open>return\<close>: no key, no best result, or an error, which the
  \<^verbatim>\<open>catch\<close> only logs.\<close>

definition resolveZipCode_primary :: "env \<Rightarrow> LocationInput \<Rightarrow> ILocation option" where
  "resolveZipCode_primary e locationInput =
     (if isAvailable e then
        (case searchPostalCode e (normalized locationInput) of
           Inl error \<Rightarrow> None
         | Inr results \<Rightarrow>
             (case getBestResult results of
                None \<Rightarrow> None
              | Some bestResult \<Rightarrow>
                  Some \<lparr>name = buildLocationNameFromZipCodeBase e bestResult,
                        country = getCountryName e (country_code bestResult),
                        admin1 = (if state bestResult \<noteq> [] then state bestResult
                                  else if state_en bestResult \<noteq> [] then state_en bestResult
                                  else str ''Unknown''),
                        lat = parseFloat (latitude bestResult),
                        lon = parseFloat (longitude bestResult),
                        resolvedBy = ByZipcode\<rparr>))
      else None)"

text \<open>The second block: the Open-Meteo search by the normalized code.\<close>

definition resolveZipCode_fallback :: "env \<Rightarrow> LocationInput \<Rightarrow> error + ILocation" where
  "resolveZipCode_fallback e locationInput =
     (case openMeteoSearchByName e (normalized locationInput) 1 of
        Inr results \<Rightarrow>
          (case results of
             Some (result # rest) \<Rightarrow>
               Inr \<lparr>name = orElse (om_name result) (inputValue locationInput),
                    country = orElse (om_country result) (str ''Unknown''),
                    admin1 = orElse (om_admin1 result) (str ''Unknown''),
                    lat = om_latitude result,
                    lon = om_longitude result,
                    resolvedBy = ByZipcode\<rparr>
           | _ \<Rightarrow> Inl (LocationNotFoundError (inputValue locationInput)))
      | Inl error \<Rightarrow>
          if isAxiosError error then
            (if responseStatus error = Some 404 \<or> responseStatus error = Some 400 then
               Inl (LocationNotFoundError (inputValue locationInput))
             else Inl (Error (str ''Geocoding service error: '' @ message error)))
          else Inl error)"

definition resolveZipCode :: "env \<Rightarrow> LocationInput \<Rightarrow> error + ILocation" where
  "resolveZipCode e locationInput =
     (case resolveZipCode_primary e locationInput of
        Some location \<Rightarrow> Inr location
      | None \<Rightarrow> resolveZipCode_fallback e locationInput)"

subsection \<open>\<^verbatim>\<open>resolveTextLocation\<close>\<close>

text \<open>The body of the \<^verbatim>\<open>try\<close> block. The \<^verbatim>\<open>LocationNotFoundError\<close> of the inner
  \<^verbatim>\<open>catch\<close> is thrown inside it.\<close>

definition resolveTextLocation_try :: "env \<Rightarrow> LocationInput \<Rightarrow> error + ILocation" where
  "resolveTextLocation_try e locationInput =
     (case openMeteoSearchByName e (normalized locationInput) 1 of
        Inl error \<Rightarrow> Inl error
      | Inr results \<Rightarrow>
          (case results of
             Some (result # rest) \<Rightarrow>
               Inr \<lparr>name = orElse (om_name result) (str ''Unknown''),
                    country = orElse (om_country result) (str ''Unknown''),
                    admin1 = orElse (om_admin1 result) (str ''Unknown''),
                    lat = om_latitude result,
                    lon = om_longitude result,
                    resolvedBy = (if inputType locationInput = Landmark then ByLandmark
                                  else Geocoding)\<rparr>
           | _ \<Rightarrow>
               (case searchWithVariations e (inputValue locationInput) of
                  Inr fallbackResult \<Rightarrow> Inr fallbackResult
                | Inl fallbackError \<Rightarrow>
                    Inl (LocationNotFoundError (inputValue locationInput)))))"

text \<open>The \<^verbatim>\<open>catch\<close> of that block wraps whatever was thrown.\<close>

definition resolveTextLocation :: "env \<Rightarrow> LocationInput \<Rightarrow> error + ILocation" where
  "resolveTextLocation e locationInput =
     (case resolveTextLocation_try e locationInput of
        Inr location \<Rightarrow> Inr location
      | Inl error \<Rightarrow> Inl (Error (str ''Geocoding service error: '' @ message error)))"

subsection \<open>\<^verbatim>\<open>reverseGeocode\<close>\<close>

record ReverseResult =
  rg_name :: jsstring
  rg_country :: jsstring
  rg_admin1 :: jsstring
  rg_admin2 :: "jsstring option"
  rg_admin3 :: "jsstring option"

text \<open>The coordinates as a name: \<^verbatim>\<open>`${lat},${lon}`\<close>.\<close>

definition coordinatesName :: "jsnumber \<Rightarrow> jsnumber \<Rightarrow> jsstring" where
  "coordinatesName lat' lon' = numberToString lat' @ str '','' @ numberToString lon'"

definition coordinateEcho :: "jsnumber \<Rightarrow> jsnumber \<Rightarrow> ReverseResult" where
  "coordinateEcho lat' lon' =
     \<lparr>rg_name = coordinatesName lat' lon', rg_country = str ''Unknown'',
      rg_admin1 = str ''Unknown'', rg_admin2 = None, rg_admin3 = None\<rparr>"

definition fallbackReverseGeocode :: "env \<Rightarrow> jsnumber \<Rightarrow> jsnumber \<Rightarrow> error + ReverseResult" where
  "fallbackReverseGeocode e lat' lon' =
     (case openMeteoSearchByName e (coordinatesName lat' lon') 3 of
        Inr (Some (result # rest)) \<Rightarrow>
          Inr \<lparr>rg_name = orElse (om_name result) (coordinatesName lat' lon'),
               rg_country = orElse (om_country result) (str ''Unknown''),
               rg_admin1 = orElse (om_admin1 result) (str ''Unknown''),
               rg_admin2 = None, rg_admin3 = None\<rparr>
      | _ \<Rightarrow> Inr (coordinateEcho lat' lon'))"

text \<open>The first block: Nominatim. \<open>None\<close> stands for leaving the block without a
  \<^verbatim>\<open>return\<close>: no result, or an error, which the \<^verbatim>\<open>catch\<close> only logs.\<close>

definition reverseGeocode_nominatim :: "env \<Rightarrow> jsnumber \<Rightarrow> jsnumber \<Rightarrow> ReverseResult option" where
  "reverseGeocode_nominatim e lat' lon' =
     (case nm_reverseGeocode e lat' lon' of
        Inr (Some nominatimResult) \<Rightarrow>
          Some \<lparr>rg_name = nm_buildLocationName nominatimResult,
                rg_country = nm_getCountryName nominatimResult,
                rg_admin1 = nm_getStateName nominatimResult,
                rg_admin2 = Some (nm_getCityName nominatimResult),
                rg_admin3 = na_suburb (nr_address nominatimResult)\<rparr>
      | _ \<Rightarrow> None)"

text \<open>The body of the second \<^verbatim>\<open>try\<close> block: the Open-Meteo search by coordinates,
  preferring a populated place, and with no hit the wider search.\<close>

definition isPopulatedPlace :: "OpenMeteoResult \<Rightarrow> bool" where
  "isPopulatedPlace result \<longleftrightarrow>
     om_feature_code result = Some (str ''PPL'') \<or> om_feature_code result = Some (str ''PPLA'') \<or>
     om_feature_code result = Some (str ''PPLA2'')"

definition reverseGeocode_openMeteo :: "env \<Rightarrow> jsnumber \<Rightarrow> jsnumber \<Rightarrow> error + ReverseResult" where
  "reverseGeocode_openMeteo e lat' lon' =
     (case openMeteoSearchByCoords e lat' lon' 5 of
        Inl error \<Rightarrow> Inl error
      | Inr results \<Rightarrow>
          (case results of
             Some (first # rest) \<Rightarrow>
               (let bestResult = (case find isPopulatedPlace (first # rest) of
                                    Some result \<Rightarrow> result
                                  | None \<Rightarrow> first);
                    locationParts =
                      (if truthy (om_name bestResult) then [strOf (om_name bestResult)] else []) @
                      (if truthy (om_admin2 bestResult) \<and>
                          om_admin2 bestResult \<noteq> om_name bestResult \<and>
                          om_admin2 bestResult \<noteq> om_admin1 bestResult
                       then [strOf (om_admin2 bestResult)] else []) @
                      (if truthy (om_admin1 bestResult) then [strOf (om_admin1 bestResult)] else []) @
                      (if truthy (om_country bestResult) then [strOf (om_country bestResult)]
                       else []);
                    locationName = (if locationParts \<noteq> [] then join locationParts
                                    else coordinatesName lat' lon')
                in Inr \<lparr>rg_name = locationName,
                        rg_country = orElse (om_country bestResult) (str ''Unknown''),
                        rg_admin1 = orElse (om_admin1 bestResult) (str ''Unknown''),
                        rg_admin2 = om_admin2 bestResult,
                        rg_admin3 = om_admin3 bestResult\<rparr>)
           | _ \<Rightarrow> fallbackReverseGeocode e lat' lon'))"

definition reverseGeocode :: "env \<Rightarrow> jsnumber \<Rightarrow> jsnumber \<Rightarrow> error + ReverseResult" where
  "reverseGeocode e lat' lon' =
     (case reverseGeocode_nominatim e lat' lon' of
        Some details \<Rightarrow> Inr details
      | None \<Rightarrow>
          (case reverseGeocode_openMeteo e lat' lon' of
             Inr details \<Rightarrow> Inr details
           | Inl error \<Rightarrow> Inr (coordinateEcho lat' lon')))"

subsection \<open>\<^verbatim>\<open>resolveCoordinates\<close>\<close>

text \<open>\<^verbatim>\<open>parseFloat(coords[i])\<close>: a missing element is \<^verbatim>\<open>undefined\<close>, which
  \<^verbatim>\<open>parseFloat\<close> reads as the string \<^verbatim>\<open>"undefined"\<close>.\<close>

definition parseFloatAt :: "jsstring list \<Rightarrow> nat \<Rightarrow> jsnumber" where
  "parseFloatAt coords i =
     (if i < length coords then parseFloat (coords ! i) else parseFloat (str ''undefined''))"

definition outOfRange :: "jsnumber \<Rightarrow> jsnumber \<Rightarrow> bool" where
  "outOfRange lat' lon' \<longleftrightarrow>
     js_lt lat' (Fin (- 90)) \<or> js_gt lat' (Fin 90) \<or>
     js_lt lon' (Fin (- 180)) \<or> js_gt lon' (Fin 180)"

definition invalidCoordinates :: error where
  "invalidCoordinates =
     Error (str ''Invalid coordinates. Latitude must be between -90 and 90, longitude between -180 and 180.'')"

definition resolveCoordinates :: "env \<Rightarrow> LocationInput \<Rightarrow> error + ILocation" where
  "resolveCoordinates e locationInput =
     (let coords = splitOn 44 (normalized locationInput);
          lat' = parseFloatAt coords 0;
          lon' = parseFloatAt coords 1
      in if outOfRange lat' lon' then Inl invalidCoordinates
         else case reverseGeocode e lat' lon' of
                Inr locationDetails \<Rightarrow>
                  Inr \<lparr>name = rg_name locationDetails,
                       country = rg_country locationDetails,
                       admin1 = rg_admin1 locationDetails,
                       lat = lat', lon = lon', resolvedBy = Coords\<rparr>
              | Inl error \<Rightarrow>
                  Inr \<lparr>name = coordinatesName lat' lon',
                       country = str ''Unknown'',
                       admin1 = str ''Unknown'',
                       lat = lat', lon = lon', resolvedBy = Coords\<rparr>)"

subsection \<open>\<^verbatim>\<open>resolveLocation\<close>\<close>

fun resolveByType :: "env \<Rightarrow> LocationInput \<Rightarrow> error + ILocation" where
  "resolveByType e locationInput =
     (case inputType locationInput of
        Coordinates \<Rightarrow> resolveCoordinates e locationInput
      | Zipcode \<Rightarrow> resolveZipCode e locationInput
      | _ \<Rightarrow> resolveTextLocation e locationInput)"

text \<open>\<^verbatim>\<open>locationType as any\<close>: the hint becomes the type, whatever string it is.\<close>

definition typeOfHint :: "jsstring \<Rightarrow> location_type" where
  "typeOfHint locationType =
     (if locationType = str ''coordinates'' then Coordinates
      else if locationType = str ''zipcode'' then Zipcode
      else if locationType = str ''landmark'' then Landmark
      else if locationType = str ''city'' then City
      else if locationType = str ''address'' then Address
      else if locationType = str ''unknown'' then Unknown
      else Other locationType)"

definition resolveLocation :: "env \<Rightarrow> jsstring \<Rightarrow> jsstring option \<Rightarrow> error + ILocation" where
  "resolveLocation e input locationType =
     (let trimmedInput = trim input
      in if truthy locationType \<and> locationType \<noteq> Some (str ''auto'') then
           resolveByType e
             \<lparr>inputType = typeOfHint (strOf locationType),
              inputValue = trimmedInput,
              normalized =
                (if locationType = Some (str ''coordinates'') then normalizeCoordinates trimmedInput
                 else if locationType = Some (str ''zipcode'') then normalizeZipCode trimmedInput
                 else trimmedInput)\<rparr>
         else resolveByType e (detectLocationType (toLowerCase e) trimmedInput))"

section \<open>Outcomes of a provider, and example worlds\<close>

text \<open>A search that throws or has no hit, and a reverse lookup that throws or has no
  place.\<close>

definition failsOrEmpty :: "error + 'a list option \<Rightarrow> bool" where
  "failsOrEmpty r \<longleftrightarrow> (case r of Inl error \<Rightarrow> True | Inr results \<Rightarrow> noResults results)"

definition nothingFound :: "error + NominatimResult option \<Rightarrow> bool" where
  "nothingFound r \<longleftrightarrow>
     (case r of
        Inl error \<Rightarrow> True
      | Inr None \<Rightarrow> True
      | Inr (Some result) \<Rightarrow> nr_place_id result = 0)"

text \<open>The case conversions on ASCII text.\<close>

definition toLowerCaseAscii :: "jsstring \<Rightarrow> jsstring" where
  "toLowerCaseAscii s = map (\<lambda>c. if 65 \<le> c \<and> c \<le> 90 then c + 32 else c) s"

text \<open>A world without an API key in which no provider knows any place.\<close>

definition silentWorld :: env where
  "silentWorld =
     \<lparr>apiKey = [], toLowerCase = toLowerCaseAscii, toUpperCase = toUpperCaseAscii,
      openMeteoSearchByName = (\<lambda>query count. Inr None),
      openMeteoSearchByCoords = (\<lambda>lat' lon' count. Inr None),
      nominatimSearch = (\<lambda>query. Inr (Some [])),
      nominatimReverse = (\<lambda>lat' lon'. Inr None),
      zipCodeBaseSearch = (\<lambda>code. Inr None)\<rparr>"

text \<open>The error of a request that was answered with status 429.\<close>

definition rateLimited :: error where
  "rateLimited = AxiosError (Some 429) (str ''Request failed with status code 429'')"

text \<open>A world in which Nominatim and the Open-Meteo search by name are rate-limited
  and the Open-Meteo search by coordinates has no hit.\<close>

definition rateLimitedWorld :: env where
  "rateLimitedWorld =
     silentWorld
       \<lparr>openMeteoSearchByName := (\<lambda>query count. Inl rateLimited),
        nominatimReverse := (\<lambda>lat' lon'. Inl rateLimited)\<rparr>"

text \<open>A world in which the Open-Meteo search by coordinates knows London, at
  coordinates of its own.\<close>

definition london :: OpenMeteoResult where
  "london =
     \<lparr>om_name = Some (str ''London''), om_country = Some (str ''United Kingdom''),
      om_admin1 = Some (str ''England''), om_admin2 = Some (str ''Greater London''),
      om_admin3 = None, om_feature_code = Some (str ''PPLC''),
      om_latitude = Fin (103 / 2), om_longitude = Fin (- (1 / 8))\<rparr>"

definition londonWorld :: env where
  "londonWorld = silentWorld \<lparr>openMeteoSearchByCoords := (\<lambda>lat' lon' count. Inr (Some [london]))\<rparr>"

text \<open>A world in which the Open-Meteo search by coordinates is rate-limited, while
  the search by name would answer with London.\<close>

definition coordinatesLimitedWorld :: env where
  "coordinatesLimitedWorld =
     silentWorld
       \<lparr>openMeteoSearchByName := (\<lambda>query count. Inr (Some [london])),
        openMeteoSearchByCoords := (\<lambda>lat' lon' count. Inl rateLimited)\<rparr>"

text \<open>A world without an API key in which the Open-Meteo search knows the code
  12345.\<close>

definition schenectady :: OpenMeteoResult where
  "schenectady =
     \<lparr>om_name = Some (str ''Schenectady''), om_country = Some (str ''United States''),
      om_admin1 = Some (str ''New York''), om_admin2 = None, om_admin3 = None,
      om_feature_code = Some (str ''PPL''),
      om_latitude = Fin (171 / 4), om_longitude = Fin (- 74)\<rparr>"

definition zipWorld :: env where
  "zipWorld =
     silentWorld
       \<lparr>openMeteoSearchByName :=
          (\<lambda>query count. if query = str ''12345'' then Inr (Some [schenectady]) else Inr None)\<rparr>"

text \<open>A world in which Open-Meteo knows nothing and the search of Nominatim answers
  every query with the Eiffel Tower.\<close>

definition eiffelTower :: SearchResult where
  "eiffelTower =
     \<lparr>sr_address =
        Some \<lparr>sa_city = Some (str ''Paris''), sa_town = None, sa_village = None,
              sa_hamlet = None, sa_municipality = None, sa_state = Some (str ''Ile-de-France''),
              sa_province = None, sa_region = None, sa_country = Some (str ''France'')\<rparr>,
      sr_display_name = Some (str ''Eiffel Tower, Paris, France''),
      sr_lat = str ''48.8584'', sr_lon = str ''2.2945''\<rparr>"

definition nominatimWorld :: env where
  "nominatimWorld = silentWorld \<lparr>nominatimSearch := (\<lambda>query. Inr (Some [eiffelTower]))\<rparr>"

text \<open>Three candidates of ZipCodeBase for one code: the first without a province,
  the second and the third complete.\<close>

definition candidateA :: ZipCodeBaseResult where
  "candidateA =
     \<lparr>postal_code = str ''12345'', country_code = str ''US'', latitude = str ''42.75'',
      longitude = str ''-74'', city = str ''Schenectady'', state = str ''New York'',
      city_en = str ''Schenectady'', state_en = str ''New York'', state_code = str ''NY'',
      province = [], province_code = []\<rparr>"

definition candidateB :: ZipCodeBaseResult where
  "candidateB =
     \<lparr>postal_code = str ''12345'', country_code = str ''DE'', latitude = str ''50.5'',
      longitude = str ''12.25'', city = str ''Plauen'', state = str ''Sachsen'',
      city_en = str ''Plauen'', state_en = str ''Saxony'', state_code = str ''SN'',
      province = str ''Vogtlandkreis'', province_code = str ''00''\<rparr>"

definition candidateC :: ZipCodeBaseResult where
  "candidateC =
     \<lparr>postal_code = str ''12345'', country_code = str ''FR'', latitude = str ''48.5'',
      longitude = str ''2.5'', city = str ''Ville'', state = str ''Region'',
      city_en = str ''Ville'', state_en = str ''Region'', state_code = str ''RG'',
      province = str ''Departement'', province_code = str ''01''\<rparr>"

section \<open>Evaluation\<close>

text \<open>The recursive functions on numbers unfold on numerals only.\<close>

declare digitCount.simps [simp del]

lemmas digitCount_numeral [simp] =
  digitCount.simps [of _ "numeral k"] digitCount.simps [of _ 0] digitCount.simps [of _ 1]
  digitCount.simps [of _ "- numeral k"] for k

declare digitsOf.simps [simp del]

lemmas digitsOf_numeral [simp] =
  digitsOf.simps [of "numeral k"] digitsOf.simps [of 0] digitsOf.simps [of 1]
  digitsOf.simps [of "Suc 0"] for k

lemmas number_eval =
  toDouble_def ilog2_def exponentOf_def pow2_def pow10_def roundHalfEven_def Let_def
  parseFloat_def parseUnsigned_def trimStart_def isWhiteSpace_def isDigit_def str_def
  digitsValue_def exponentPart_def decimalExponent_def candidate_def shortestDigits_def
  formatDigits_def positiveToString_def

text \<open>The patterns and the tests of the classifier on a given string.\<close>

lemmas pattern_defs =
  digit_def whiteSpace_def decimalNumber_def decimalPattern_def degreeSign_def minuteMark_def
  secondMark_def secondsNumber_def dmsPieces_def dmsPattern_def separator_def altPieces_def
  altPattern_def letter_def usZip_def brCep_def ukPostcode_def caPostcode_def genericZip_def
  Plus_def between_def

lemma times_numeral [simp]: "times (numeral k) r = Seq r (times (pred_numeral k) r)"
  by (simp add: numeral_eq_Suc)

lemma upTo_numeral [simp]: "upTo (numeral k) r = Opt (Seq r (upTo (pred_numeral k) r))"
  by (simp add: numeral_eq_Suc)

lemmas classifier_eval =
  isCoordinates_def isZipCode_def isLandmark_def isCity_def test_def
  pattern_defs trim_def isWhiteSpace_def isDigit_def isLetterI_def oneOf_def str_def
  landmarkKeywords_def toLowerCaseAscii_def normalizeZipCode_def Let_def

lemma parseFloat_51_5074:
  "parseFloat (str ''51.5074'') = Fin (7249022107713221 / 140737488355328)"
  by (simp add: number_eval)

lemma parseFloat_minus_0_1278:
  "parseFloat (str ''-0.1278'') = Fin (- (4604480259023595 / 36028797018963968))"
  by (simp add: number_eval)

lemma numberToString_51_5074:
  "numberToString (Fin (7249022107713221 / 140737488355328)) = str ''51.5074''"
  by (simp add: number_eval)

lemma numberToString_minus_0_1278:
  "numberToString (Fin (- (4604480259023595 / 36028797018963968))) = str ''-0.1278''"
  by (simp add: number_eval)

section \<open>The reverse-geocoding chain\<close>

lemma reverseGeocode_nominatim_nothing:
  "nothingFound (nominatimReverse e lat' lon') \<Longrightarrow> reverseGeocode_nominatim e lat' lon' = None"
  by (auto simp: nothingFound_def reverseGeocode_nominatim_def nm_reverseGeocode_def
           split: sum.splits option.splits)

lemma fallbackReverseGeocode_returns:
  "\<exists>r. fallbackReverseGeocode e lat' lon' = Inr r"
  by (auto simp: fallbackReverseGeocode_def split: sum.splits option.splits list.splits)

lemma fallbackReverseGeocode_nothing:
  "failsOrEmpty (openMeteoSearchByName e (coordinatesName lat' lon') 3) \<Longrightarrow>
   fallbackReverseGeocode e lat' lon' = Inr (coordinateEcho lat' lon')"
  by (auto simp: failsOrEmpty_def noResults_def fallbackReverseGeocode_def
           split: sum.splits option.splits list.splits)

text \<open>
  Claim C2. When the reverse lookup of Nominatim throws or finds no place, the
  Open-Meteo search by coordinates throws or has no hit, and the wider Open-Meteo search
  by the coordinate string throws or has no hit, \<^verbatim>\<open>reverseGeocode\<close> returns the
  coordinates as the name with country and region \<^verbatim>\<open>Unknown\<close>; and the final fallback
  \<^verbatim>\<open>fallbackReverseGeocode\<close> returns in every world, it never throws.
\<close>

theorem reverseGeocode_all_providers_fail:
  assumes "nothingFound (nominatimReverse e lat' lon')"
    and "failsOrEmpty (openMeteoSearchByCoords e lat' lon' 5)"
    and "failsOrEmpty (openMeteoSearchByName e (coordinatesName lat' lon') 3)"
  shows "reverseGeocode e lat' lon' =
           Inr \<lparr>rg_name = numberToString lat' @ str '','' @ numberToString lon',
                rg_country = str ''Unknown'', rg_admin1 = str ''Unknown'',
                rg_admin2 = None, rg_admin3 = None\<rparr> \<and>
         (\<exists>r. fallbackReverseGeocode e lat' lon' = Inr r)"
proof -
  have "reverseGeocode_openMeteo e lat' lon' = Inr (coordinateEcho lat' lon') \<or>
        (\<exists>err. reverseGeocode_openMeteo e lat' lon' = Inl err)"
    using assms(2) fallbackReverseGeocode_nothing [OF assms(3)]
    by (auto simp: reverseGeocode_openMeteo_def failsOrEmpty_def noResults_def
             split: sum.splits option.splits list.splits)
  then have "reverseGeocode e lat' lon' = Inr (coordinateEcho lat' lon')"
    using reverseGeocode_nominatim_nothing [OF assms(1)] by (auto simp: reverseGeocode_def)
  then show ?thesis
    using fallbackReverseGeocode_returns [of e lat' lon']
    by (simp add: coordinateEcho_def coordinatesName_def)
qed

theorem reverseGeocode_all_providers_fail_witness:
  "nothingFound (nominatimReverse silentWorld (parseFloat (str ''51.5074''))
     (parseFloat (str ''-0.1278''))) \<and>
   failsOrEmpty (openMeteoSearchByCoords silentWorld (parseFloat (str ''51.5074''))
     (parseFloat (str ''-0.1278'')) 5) \<and>
   failsOrEmpty (openMeteoSearchByName silentWorld
     (coordinatesName (parseFloat (str ''51.5074'')) (parseFloat (str ''-0.1278''))) 3) \<and>
   reverseGeocode silentWorld (parseFloat (str ''51.5074'')) (parseFloat (str ''-0.1278'')) =
     Inr \<lparr>rg_name = str ''51.5074,-0.1278'',
          rg_country = str ''Unknown'', rg_admin1 = str ''Unknown'',
          rg_admin2 = None, rg_admin3 = None\<rparr>"
proof -
  have n: "nothingFound (nominatimReverse silentWorld (parseFloat (str ''51.5074''))
     (parseFloat (str ''-0.1278'')))"
    by (simp add: nothingFound_def silentWorld_def)
  have c: "failsOrEmpty (openMeteoSearchByCoords silentWorld (parseFloat (str ''51.5074''))
     (parseFloat (str ''-0.1278'')) 5)"
    by (simp add: failsOrEmpty_def noResults_def silentWorld_def)
  have f: "failsOrEmpty (openMeteoSearchByName silentWorld
     (coordinatesName (parseFloat (str ''51.5074'')) (parseFloat (str ''-0.1278''))) 3)"
    by (simp add: failsOrEmpty_def noResults_def silentWorld_def)
  have s: "str ''51.5074'' @ str '','' @ str ''-0.1278'' = str ''51.5074,-0.1278''"
    by (simp add: str_def)
  have "reverseGeocode silentWorld (parseFloat (str ''51.5074'')) (parseFloat (str ''-0.1278'')) =
     Inr \<lparr>rg_name = str ''51.5074,-0.1278'',
          rg_country = str ''Unknown'', rg_admin1 = str ''Unknown'',
          rg_admin2 = None, rg_admin3 = None\<rparr>"
    using reverseGeocode_all_providers_fail [OF n c f]
    unfolding parseFloat_51_5074 parseFloat_minus_0_1278
      numberToString_51_5074 numberToString_minus_0_1278 s
    by simp
  with n c f show ?thesis
    by simp
qed

lemma reverseGeocode_returns:
  "\<exists>r. reverseGeocode e lat' lon' = Inr r"
  by (auto simp: reverseGeocode_def split: option.splits sum.splits)

lemma numberToString_10: "numberToString (Fin 10) = str ''10''"
  by (simp add: number_eval)

lemma numberToString_20: "numberToString (Fin 20) = str ''20''"
  by (simp add: number_eval)

lemma coordinatesName_10_20: "coordinatesName (Fin 10) (Fin 20) = str ''10,20''"
  unfolding coordinatesName_def numberToString_10 numberToString_20
  by (simp add: str_def)

text \<open>
  Claim C7, as stated, fails: at latitude 10 and longitude 20, in a world in which
  Nominatim is rate-limited, the Open-Meteo search by coordinates has no hit and the
  final fallback provider answers with status 429, \<^verbatim>\<open>reverseGeocode\<close> does not
  propagate the rate limit; it returns the coordinates as the name.
\<close>

theorem reverseGeocode_rate_limit_counterexample:
  "openMeteoSearchByName rateLimitedWorld (coordinatesName (Fin 10) (Fin 20)) 3 =
     Inl (AxiosError (Some 429) (str ''Request failed with status code 429'')) \<and>
   reverseGeocode rateLimitedWorld (Fin 10) (Fin 20) =
     Inr \<lparr>rg_name = str ''10,20'', rg_country = str ''Unknown'', rg_admin1 = str ''Unknown'',
          rg_admin2 = None, rg_admin3 = None\<rparr>"
  by (simp add: rateLimitedWorld_def silentWorld_def rateLimited_def reverseGeocode_def
        reverseGeocode_nominatim_def nm_reverseGeocode_def reverseGeocode_openMeteo_def
        fallbackReverseGeocode_def coordinateEcho_def coordinatesName_10_20)

text \<open>
  Claim C7, amended. In the reverse-geocoding chain a rate-limit (429) response is
  never propagated to the caller, whichever provider gives it: \<^verbatim>\<open>reverseGeocode\<close>
  never throws. A rate limit of Nominatim leads on to the Open-Meteo search by
  coordinates. A rate limit of the search by coordinates, Nominatim having found
  nothing, yields the coordinates as the name at once, with country and region
  \<^verbatim>\<open>Unknown\<close>: the wider search is not asked, whatever it would answer. A rate
  limit of the final fallback provider, Nominatim having found nothing and the
  search by coordinates having no hit, yields the coordinates as the name as well.
\<close>

theorem reverseGeocode_rate_limit_never_propagates:
  "(\<forall>err. reverseGeocode e lat' lon' \<noteq> Inl err) \<and>
   (nominatimReverse e lat' lon' = Inl (AxiosError (Some 429) m) \<longrightarrow>
      reverseGeocode e lat' lon' =
        (case reverseGeocode_openMeteo e lat' lon' of
           Inr details \<Rightarrow> Inr details
         | Inl error \<Rightarrow> Inr (coordinateEcho lat' lon'))) \<and>
   (nothingFound (nominatimReverse e lat' lon') \<longrightarrow>
    openMeteoSearchByCoords e lat' lon' 5 = Inl (AxiosError (Some 429) m) \<longrightarrow>
      (\<forall>answer. reverseGeocode (e\<lparr>openMeteoSearchByName := answer\<rparr>) lat' lon' =
        Inr \<lparr>rg_name = numberToString lat' @ str '','' @ numberToString lon',
             rg_country = str ''Unknown'', rg_admin1 = str ''Unknown'',
             rg_admin2 = None, rg_admin3 = None\<rparr>)) \<and>
   (nothingFound (nominatimReverse e lat' lon') \<longrightarrow>
    (\<exists>results. openMeteoSearchByCoords e lat' lon' 5 = Inr results \<and> noResults results) \<longrightarrow>
    openMeteoSearchByName e (coordinatesName lat' lon') 3 = Inl (AxiosError (Some 429) m) \<longrightarrow>
      reverseGeocode e lat' lon' =
        Inr \<lparr>rg_name = numberToString lat' @ str '','' @ numberToString lon',
             rg_country = str ''Unknown'', rg_admin1 = str ''Unknown'',
             rg_admin2 = None, rg_admin3 = None\<rparr>)"
proof (intro conjI allI impI)
  fix err
  show "reverseGeocode e lat' lon' \<noteq> Inl err"
    using reverseGeocode_returns [of e lat' lon'] by auto
next
  assume "nominatimReverse e lat' lon' = Inl (AxiosError (Some 429) m)"
  then have "reverseGeocode_nominatim e lat' lon' = None"
    by (simp add: reverseGeocode_nominatim_def nm_reverseGeocode_def)
  then show "reverseGeocode e lat' lon' =
        (case reverseGeocode_openMeteo e lat' lon' of
           Inr details \<Rightarrow> Inr details
         | Inl error \<Rightarrow> Inr (coordinateEcho lat' lon'))"
    by (simp add: reverseGeocode_def)
next
  fix answer
  let ?e = "e\<lparr>openMeteoSearchByName := answer\<rparr>"
  assume n: "nothingFound (nominatimReverse e lat' lon')"
    and c: "openMeteoSearchByCoords e lat' lon' 5 = Inl (AxiosError (Some 429) m)"
  from n have "nothingFound (nominatimReverse ?e lat' lon')"
    by simp
  then have "reverseGeocode_nominatim ?e lat' lon' = None"
    by (rule reverseGeocode_nominatim_nothing)
  moreover from c have "reverseGeocode_openMeteo ?e lat' lon' = Inl (AxiosError (Some 429) m)"
    by (simp add: reverseGeocode_openMeteo_def)
  ultimately have "reverseGeocode ?e lat' lon' = Inr (coordinateEcho lat' lon')"
    by (simp add: reverseGeocode_def)
  then show "reverseGeocode ?e lat' lon' =
        Inr \<lparr>rg_name = numberToString lat' @ str '','' @ numberToString lon',
             rg_country = str ''Unknown'', rg_admin1 = str ''Unknown'',
             rg_admin2 = None, rg_admin3 = None\<rparr>"
    by (simp add: coordinateEcho_def coordinatesName_def)
next
  assume n: "nothingFound (nominatimReverse e lat' lon')"
    and c: "\<exists>results. openMeteoSearchByCoords e lat' lon' 5 = Inr results \<and> noResults results"
    and f: "openMeteoSearchByName e (coordinatesName lat' lon') 3 = Inl (AxiosError (Some 429) m)"
  have fb: "fallbackReverseGeocode e lat' lon' = Inr (coordinateEcho lat' lon')"
    using f by (simp add: fallbackReverseGeocode_def)
  from c obtain results where cr: "openMeteoSearchByCoords e lat' lon' 5 = Inr results"
    and nr: "noResults results"
    by blast
  have "reverseGeocode_openMeteo e lat' lon' = fallbackReverseGeocode e lat' lon'"
    using nr by (cases results) (simp_all add: reverseGeocode_openMeteo_def cr noResults_def)
  with fb have "reverseGeocode_openMeteo e lat' lon' = Inr (coordinateEcho lat' lon')"
    by simp
  then have "reverseGeocode e lat' lon' = Inr (coordinateEcho lat' lon')"
    using reverseGeocode_nominatim_nothing [OF n] by (simp add: reverseGeocode_def)
  then show "reverseGeocode e lat' lon' =
        Inr \<lparr>rg_name = numberToString lat' @ str '','' @ numberToString lon',
             rg_country = str ''Unknown'', rg_admin1 = str ''Unknown'',
             rg_admin2 = None, rg_admin3 = None\<rparr>"
    by (simp add: coordinateEcho_def coordinatesName_def)
qed

theorem reverseGeocode_rate_limit_never_propagates_witness:
  "nominatimReverse rateLimitedWorld (Fin 10) (Fin 20) =
     Inl (AxiosError (Some 429) (str ''Request failed with status code 429'')) \<and>
   nothingFound (nominatimReverse rateLimitedWorld (Fin 10) (Fin 20)) \<and>
   (\<exists>results. openMeteoSearchByCoords rateLimitedWorld (Fin 10) (Fin 20) 5 = Inr results \<and>
      noResults results) \<and>
   openMeteoSearchByName rateLimitedWorld (coordinatesName (Fin 10) (Fin 20)) 3 =
     Inl (AxiosError (Some 429) (str ''Request failed with status code 429'')) \<and>
   reverseGeocode rateLimitedWorld (Fin 10) (Fin 20) =
     Inr \<lparr>rg_name = numberToString (Fin 10) @ str '','' @ numberToString (Fin 20),
          rg_country = str ''Unknown'', rg_admin1 = str ''Unknown'',
          rg_admin2 = None, rg_admin3 = None\<rparr> \<and>
   nothingFound (nominatimReverse coordinatesLimitedWorld (Fin 10) (Fin 20)) \<and>
   openMeteoSearchByCoords coordinatesLimitedWorld (Fin 10) (Fin 20) 5 =
     Inl (AxiosError (Some 429) (str ''Request failed with status code 429'')) \<and>
   openMeteoSearchByName coordinatesLimitedWorld (coordinatesName (Fin 10) (Fin 20)) 3 =
     Inr (Some [london]) \<and>
   reverseGeocode coordinatesLimitedWorld (Fin 10) (Fin 20) =
     Inr \<lparr>rg_name = numberToString (Fin 10) @ str '','' @ numberToString (Fin 20),
          rg_country = str ''Unknown'', rg_admin1 = str ''Unknown'',
          rg_admin2 = None, rg_admin3 = None\<rparr>"
proof -
  let ?m = "str ''Request failed with status code 429''"
  have n: "nothingFound (nominatimReverse rateLimitedWorld (Fin 10) (Fin 20))"
    by (simp add: nothingFound_def rateLimitedWorld_def)
  have c: "\<exists>results. openMeteoSearchByCoords rateLimitedWorld (Fin 10) (Fin 20) 5 = Inr results \<and>
      noResults results"
    by (simp add: noResults_def rateLimitedWorld_def silentWorld_def)
  have f: "openMeteoSearchByName rateLimitedWorld (coordinatesName (Fin 10) (Fin 20)) 3 =
     Inl (AxiosError (Some 429) ?m)"
    by (simp add: rateLimitedWorld_def rateLimited_def)
  have r: "nominatimReverse rateLimitedWorld (Fin 10) (Fin 20) = Inl (AxiosError (Some 429) ?m)"
    by (simp add: rateLimitedWorld_def rateLimited_def)
  have last: "reverseGeocode rateLimitedWorld (Fin 10) (Fin 20) =
     Inr \<lparr>rg_name = numberToString (Fin 10) @ str '','' @ numberToString (Fin 20),
          rg_country = str ''Unknown'', rg_admin1 = str ''Unknown'',
          rg_admin2 = None, rg_admin3 = None\<rparr>"
    by (rule reverseGeocode_rate_limit_never_propagates
          [of rateLimitedWorld "Fin 10" "Fin 20" ?m,
            THEN conjunct2, THEN conjunct2, THEN conjunct2, rule_format, OF n c f])
  have n': "nothingFound (nominatimReverse coordinatesLimitedWorld (Fin 10) (Fin 20))"
    by (simp add: nothingFound_def coordinatesLimitedWorld_def silentWorld_def)
  have c': "openMeteoSearchByCoords coordinatesLimitedWorld (Fin 10) (Fin 20) 5 =
     Inl (AxiosError (Some 429) ?m)"
    by (simp add: coordinatesLimitedWorld_def rateLimited_def)
  have f': "openMeteoSearchByName coordinatesLimitedWorld (coordinatesName (Fin 10) (Fin 20)) 3 =
     Inr (Some [london])"
    by (simp add: coordinatesLimitedWorld_def)
  have same: "coordinatesLimitedWorld
      \<lparr>openMeteoSearchByName := openMeteoSearchByName coordinatesLimitedWorld\<rparr> =
     coordinatesLimitedWorld"
    by simp
  have "reverseGeocode
      (coordinatesLimitedWorld
         \<lparr>openMeteoSearchByName := openMeteoSearchByName coordinatesLimitedWorld\<rparr>)
      (Fin 10) (Fin 20) =
     Inr \<lparr>rg_name = numberToString (Fin 10) @ str '','' @ numberToString (Fin 20),
          rg_country = str ''Unknown'', rg_admin1 = str ''Unknown'',
          rg_admin2 = None, rg_admin3 = None\<rparr>"
    by (rule reverseGeocode_rate_limit_never_propagates
          [of coordinatesLimitedWorld "Fin 10" "Fin 20" ?m,
            THEN conjunct2, THEN conjunct2, THEN conjunct1, rule_format, OF n' c'])
  then have middle: "reverseGeocode coordinatesLimitedWorld (Fin 10) (Fin 20) =
     Inr \<lparr>rg_name = numberToString (Fin 10) @ str '','' @ numberToString (Fin 20),
          rg_country = str ''Unknown'', rg_admin1 = str ''Unknown'',
          rg_admin2 = None, rg_admin3 = None\<rparr>"
    unfolding same .
  show ?thesis
    by (intro conjI) (fact r, fact n, fact c, fact f, fact last, fact n', fact c', fact f',
        fact middle)
qed

section \<open>The postal chain\<close>

lemma resolveZipCode_primary_tag:
  "resolveZipCode_primary e locationInput = Some location \<Longrightarrow> resolvedBy location = ByZipcode"
  by (auto simp: resolveZipCode_primary_def split: if_splits sum.splits option.splits)

lemma resolveZipCode_fallback_tag:
  "resolveZipCode_fallback e locationInput = Inr location \<Longrightarrow> resolvedBy location = ByZipcode"
  by (auto simp: resolveZipCode_fallback_def
           split: if_splits sum.splits option.splits list.splits)

lemma detect_12345:
  "detectLocationType toLowerCaseAscii (str ''12345'') =
     \<lparr>inputType = Zipcode, inputValue = str ''12345'', normalized = str ''12345''\<rparr>"
proof -
  have t: "trim (str ''12345'') = str ''12345''"
    by (simp add: trim_def isWhiteSpace_def str_def)
  have c: "\<not> isCoordinates (str ''12345'')"
    by (simp add: classifier_eval)
  have z: "isZipCode (str ''12345'')"
    by (simp add: classifier_eval)
  have n: "normalizeZipCode (str ''12345'') = str ''12345''"
    by (simp add: normalizeZipCode_def isWhiteSpace_def str_def)
  show ?thesis
    by (simp add: detectLocationType_def Let_def t c z n)
qed

text \<open>
  Claim C9. For every postal-code input, when no API key is configured, or the
  lookup at ZipCodeBase throws, or it returns no candidate, \<^verbatim>\<open>resolveZipCode\<close> is
  the Open-Meteo search of its second block; and every location that
  \<^verbatim>\<open>resolveZipCode\<close> returns is tagged \<^verbatim>\<open>zipcode\<close>, whichever provider answered.
\<close>

theorem resolveZipCode_falls_through_and_tags:
  "(apiKey e = [] \<or> (\<exists>err. searchPostalCode e (normalized locationInput) = Inl err) \<or>
    searchPostalCode e (normalized locationInput) = Inr [] \<longrightarrow>
      resolveZipCode e locationInput = resolveZipCode_fallback e locationInput) \<and>
   (resolveZipCode e locationInput = Inr location \<longrightarrow> resolvedBy location = ByZipcode)"
proof (intro conjI impI)
  assume "apiKey e = [] \<or> (\<exists>err. searchPostalCode e (normalized locationInput) = Inl err) \<or>
    searchPostalCode e (normalized locationInput) = Inr []"
  then have "resolveZipCode_primary e locationInput = None"
    by (auto simp: resolveZipCode_primary_def isAvailable_def getBestResult_def)
  then show "resolveZipCode e locationInput = resolveZipCode_fallback e locationInput"
    by (simp add: resolveZipCode_def)
next
  assume "resolveZipCode e locationInput = Inr location"
  then show "resolvedBy location = ByZipcode"
    using resolveZipCode_primary_tag [of e locationInput location]
      resolveZipCode_fallback_tag [of e locationInput location]
    by (auto simp: resolveZipCode_def split: option.splits)
qed

theorem resolveZipCode_falls_through_and_tags_witness:
  "apiKey zipWorld = [] \<and>
   resolveLocation zipWorld (str ''12345'') None =
     resolveZipCode zipWorld
       \<lparr>inputType = Zipcode, inputValue = str ''12345'', normalized = str ''12345''\<rparr> \<and>
   resolveZipCode zipWorld
       \<lparr>inputType = Zipcode, inputValue = str ''12345'', normalized = str ''12345''\<rparr> =
     Inr \<lparr>name = str ''Schenectady'', country = str ''United States'',
          admin1 = str ''New York'', lat = Fin (171 / 4), lon = Fin (- 74),
          resolvedBy = ByZipcode\<rparr>"
proof -
  let ?input = "\<lparr>inputType = Zipcode, inputValue = str ''12345'', normalized = str ''12345''\<rparr>"
  have k: "apiKey zipWorld = []"
    by (simp add: zipWorld_def silentWorld_def)
  have t: "trim (str ''12345'') = str ''12345''"
    by (simp add: trim_def isWhiteSpace_def str_def)
  have l: "toLowerCase zipWorld = toLowerCaseAscii"
    by (simp add: zipWorld_def silentWorld_def)
  have r: "resolveLocation zipWorld (str ''12345'') None = resolveZipCode zipWorld ?input"
    by (simp add: resolveLocation_def Let_def truthy_def t l detect_12345)
  have "resolveZipCode zipWorld ?input = resolveZipCode_fallback zipWorld ?input"
    using resolveZipCode_falls_through_and_tags [of zipWorld ?input] k by blast
  moreover have "resolveZipCode_fallback zipWorld ?input =
     Inr \<lparr>name = str ''Schenectady'', country = str ''United States'',
          admin1 = str ''New York'', lat = Fin (171 / 4), lon = Fin (- 74),
          resolvedBy = ByZipcode\<rparr>"
    by (simp add: resolveZipCode_fallback_def zipWorld_def schenectady_def orElse_def str_def)
  ultimately show ?thesis
    using k r by simp
qed

section \<open>Scoring the postal candidates\<close>

lemma find_filter:
  "find P xs = (case filter P xs of [] \<Rightarrow> None | x # rest \<Rightarrow> Some x)"
  by (induction xs) auto

lemma hd_sort_key:
  assumes "sort_key f xs = y # ys"
  shows "y \<in> set xs \<and> (\<forall>x\<in>set xs. f y \<le> f x) \<and> find (\<lambda>x. f x = f y) xs = Some y"
proof -
  have s: "set xs = insert y (set ys)"
    using set_sort [of f xs] assms by simp
  have "sorted (map f (y # ys))"
    using sorted_sort_key [of f xs] assms by simp
  then have le: "\<forall>x\<in>set xs. f y \<le> f x"
    using s by auto
  have "filter (\<lambda>x. f x = f y) xs = filter (\<lambda>x. f x = f y) (y # ys)"
    using sort_key_stable [of f "f y" xs] assms by simp
  then have "find (\<lambda>x. f x = f y) xs = Some y"
    by (simp add: find_filter)
  with s le show ?thesis
    by simp
qed

lemma getBestResult_first_best:
  assumes "getBestResult results = Some best"
  shows "best \<in> set results \<and>
         (\<forall>r\<in>set results. calculateResultScore r \<le> calculateResultScore best) \<and>
         find (\<lambda>r. calculateResultScore r = calculateResultScore best) results = Some best"
proof (cases results)
  case Nil
  with assms show ?thesis
    by (simp add: getBestResult_def)
next
  case (Cons r rs)
  show ?thesis
  proof (cases rs)
    case Nil
    with Cons assms show ?thesis
      by (simp add: getBestResult_def)
  next
    case (Cons r' rs')
    with \<open>results = r # rs\<close> assms
    obtain rest where "sort_key (\<lambda>r. - calculateResultScore r) results = best # rest"
      by (auto simp: getBestResult_def split: list.splits)
    from hd_sort_key [OF this] show ?thesis
      by auto
  qed
qed

lemma getBestResult_some:
  "results \<noteq> [] \<Longrightarrow> \<exists>best. getBestResult results = Some best"
proof -
  assume "results \<noteq> []"
  then have "sort_key (\<lambda>r. - calculateResultScore r) results \<noteq> []"
    by (metis length_sort length_0_conv)
  then show ?thesis
    by (auto simp: getBestResult_def split: list.splits)
qed

text \<open>
  Claim C5. The score of a postal candidate is the sum of 15 for coordinates that
  both parse to numbers within range, 10 for a city, 8 for a state, 5 for a province
  and 3 for a country code. Of a non-empty list of candidates \<^verbatim>\<open>getBestResult\<close>
  picks one of the highest score, and among those of that score the first in the
  list. The score is monotone: a candidate that has every scored field that another
  one has scores at least as much, so a candidate with all of them scores at least
  as much as any other.
\<close>

theorem postal_score_and_best_result:
  "calculateResultScore r =
     (if validCoordinates r then 15 else 0) + (if present (city r) then 10 else 0) +
     (if present (state r) then 8 else 0) + (if present (province r) then 5 else 0) +
     (if present (country_code r) then 3 else 0) \<and>
   (results \<noteq> [] \<longrightarrow> (\<exists>best. getBestResult results = Some best)) \<and>
   (getBestResult results = Some best \<longrightarrow>
      best \<in> set results \<and>
      (\<forall>r\<in>set results. calculateResultScore r \<le> calculateResultScore best) \<and>
      find (\<lambda>r. calculateResultScore r = calculateResultScore best) results = Some best) \<and>
   ((validCoordinates b \<longrightarrow> validCoordinates a) \<and> (present (city b) \<longrightarrow> present (city a)) \<and>
    (present (state b) \<longrightarrow> present (state a)) \<and>
    (present (province b) \<longrightarrow> present (province a)) \<and>
    (present (country_code b) \<longrightarrow> present (country_code a)) \<longrightarrow>
      calculateResultScore b \<le> calculateResultScore a) \<and>
   (validCoordinates a \<and> present (city a) \<and> present (state a) \<and> present (province a) \<and>
    present (country_code a) \<longrightarrow>
      calculateResultScore a = 41 \<and> calculateResultScore b \<le> calculateResultScore a)"
proof (intro conjI)
  show "calculateResultScore r =
     (if validCoordinates r then 15 else 0) + (if present (city r) then 10 else 0) +
     (if present (state r) then 8 else 0) + (if present (province r) then 5 else 0) +
     (if present (country_code r) then 3 else 0)"
    by (simp add: calculateResultScore_def)
  show "results \<noteq> [] \<longrightarrow> (\<exists>best. getBestResult results = Some best)"
    using getBestResult_some by blast
  show "getBestResult results = Some best \<longrightarrow>
      best \<in> set results \<and>
      (\<forall>r\<in>set results. calculateResultScore r \<le> calculateResultScore best) \<and>
      find (\<lambda>r. calculateResultScore r = calculateResultScore best) results = Some best"
    using getBestResult_first_best by blast
  show "(validCoordinates b \<longrightarrow> validCoordinates a) \<and> (present (city b) \<longrightarrow> present (city a)) \<and>
    (present (state b) \<longrightarrow> present (state a)) \<and>
    (present (province b) \<longrightarrow> present (province a)) \<and>
    (present (country_code b) \<longrightarrow> present (country_code a)) \<longrightarrow>
      calculateResultScore b \<le> calculateResultScore a"
    by (simp add: calculateResultScore_def)
  show "validCoordinates a \<and> present (city a) \<and> present (state a) \<and> present (province a) \<and>
    present (country_code a) \<longrightarrow>
      calculateResultScore a = 41 \<and> calculateResultScore b \<le> calculateResultScore a"
    by (simp add: calculateResultScore_def)
qed

lemma present_eval:
  "present (str ''US'')" "present (str ''DE'')" "present (str ''FR'')"
  "present (str ''Schenectady'')" "present (str ''New York'')" "present (str ''Plauen'')"
  "present (str ''Sachsen'')" "present (str ''Vogtlandkreis'')" "present (str ''Ville'')"
  "present (str ''Region'')" "present (str ''Departement'')" "\<not> present []"
  by (simp_all add: present_def trim_def isWhiteSpace_def str_def)

lemma validCoordinates_candidateA: "validCoordinates candidateA"
proof -
  have "parseFloat (str ''42.75'') = Fin (171 / 4)" "parseFloat (str ''-74'') = Fin (- 74)"
    by (simp_all add: number_eval)
  moreover have "str ''42.75'' \<noteq> []" "str ''-74'' \<noteq> []"
    by (simp_all add: str_def)
  ultimately show ?thesis
    by (simp add: validCoordinates_def candidateA_def isNaN_def js_ge_def js_le_def)
qed

lemma validCoordinates_candidateB: "validCoordinates candidateB"
proof -
  have "parseFloat (str ''50.5'') = Fin (101 / 2)" "parseFloat (str ''12.25'') = Fin (49 / 4)"
    by (simp_all add: number_eval)
  moreover have "str ''50.5'' \<noteq> []" "str ''12.25'' \<noteq> []"
    by (simp_all add: str_def)
  ultimately show ?thesis
    by (simp add: validCoordinates_def candidateB_def isNaN_def js_ge_def js_le_def)
qed

lemma validCoordinates_candidateC: "validCoordinates candidateC"
proof -
  have "parseFloat (str ''48.5'') = Fin (97 / 2)" "parseFloat (str ''2.5'') = Fin (5 / 2)"
    by (simp_all add: number_eval)
  moreover have "str ''48.5'' \<noteq> []" "str ''2.5'' \<noteq> []"
    by (simp_all add: str_def)
  ultimately show ?thesis
    by (simp add: validCoordinates_def candidateC_def isNaN_def js_ge_def js_le_def)
qed

theorem postal_score_and_best_result_witness:
  "[candidateA, candidateB, candidateC] \<noteq> [] \<and>
   calculateResultScore candidateA = 36 \<and> calculateResultScore candidateB = 41 \<and>
   calculateResultScore candidateC = 41 \<and>
   validCoordinates candidateB \<and> present (city candidateB) \<and> present (state candidateB) \<and>
   present (province candidateB) \<and> present (country_code candidateB) \<and>
   getBestResult [candidateA, candidateB, candidateC] = Some candidateB \<and>
   candidateB \<in> set [candidateA, candidateB, candidateC] \<and>
   find (\<lambda>r. calculateResultScore r = calculateResultScore candidateB)
     [candidateA, candidateB, candidateC] = Some candidateB \<and>
   calculateResultScore candidateA \<le> calculateResultScore candidateB"
proof -
  have a: "calculateResultScore candidateA = 36"
    using validCoordinates_candidateA
    by (simp add: calculateResultScore_def present_eval) (simp add: candidateA_def present_eval)
  have b: "calculateResultScore candidateB = 41"
    using validCoordinates_candidateB
    by (simp add: calculateResultScore_def present_eval) (simp add: candidateB_def present_eval)
  have c: "calculateResultScore candidateC = 41"
    using validCoordinates_candidateC
    by (simp add: calculateResultScore_def present_eval) (simp add: candidateC_def present_eval)
  have p: "present (city candidateB) \<and> present (state candidateB) \<and>
           present (province candidateB) \<and> present (country_code candidateB)"
    by (simp add: candidateB_def present_eval)
  have g: "getBestResult [candidateA, candidateB, candidateC] = Some candidateB"
    by (simp add: getBestResult_def a b c)
  from postal_score_and_best_result
    [of candidateB "[candidateA, candidateB, candidateC]" candidateB candidateA candidateB] g
    validCoordinates_candidateB p
  have "candidateB \<in> set [candidateA, candidateB, candidateC] \<and>
        find (\<lambda>r. calculateResultScore r = calculateResultScore candidateB)
          [candidateA, candidateB, candidateC] = Some candidateB \<and>
        calculateResultScore candidateA \<le> calculateResultScore candidateB"
    by blast
  with a b c p g validCoordinates_candidateB show ?thesis
    by simp
qed

section \<open>Coordinates\<close>

lemma js_lt_NaN [simp]: "\<not> js_lt NaN y" "\<not> js_lt x NaN"
  by (cases y; simp) (cases x; simp)

lemma toDouble_51_5074: "toDouble (515074 / 10000) = Fin (7249022107713221 / 140737488355328)"
  by (simp add: number_eval)

lemma toDouble_minus_0_1278:
  "toDouble (- (1278 / 10000)) = Fin (- (4604480259023595 / 36028797018963968))"
  by (simp add: number_eval)

lemma normalizeCoordinates_london:
  "normalizeCoordinates (str ''51.5074,-0.1278'') = str ''51.5074,-0.1278''"
  by (simp add: normalizeCoordinates_def pattern_defs isWhiteSpace_def isDigit_def oneOf_def
        str_def)

lemma splitOn_london:
  "splitOn 44 (str ''51.5074,-0.1278'') = [str ''51.5074'', str ''-0.1278'']"
  by (simp add: str_def)

lemma resolveCoordinates_cases:
  "resolveCoordinates e locationInput = Inl invalidCoordinates \<or>
   (\<exists>location. resolveCoordinates e locationInput = Inr location \<and>
      lat location = parseFloatAt (splitOn 44 (normalized locationInput)) 0 \<and>
      lon location = parseFloatAt (splitOn 44 (normalized locationInput)) 1 \<and>
      resolvedBy location = Coords)"
  by (auto simp: resolveCoordinates_def Let_def split: sum.splits)

lemma resolveCoordinates_in_range:
  "\<not> outOfRange (parseFloatAt (splitOn 44 (normalized locationInput)) 0)
       (parseFloatAt (splitOn 44 (normalized locationInput)) 1) \<Longrightarrow>
   \<exists>location. resolveCoordinates e locationInput = Inr location \<and>
      lat location = parseFloatAt (splitOn 44 (normalized locationInput)) 0 \<and>
      lon location = parseFloatAt (splitOn 44 (normalized locationInput)) 1 \<and>
      resolvedBy location = Coords \<and>
      (\<forall>details. reverseGeocode e (lat location) (lon location) = Inr details \<longrightarrow>
         name location = rg_name details)"
  by (auto simp: resolveCoordinates_def Let_def split: sum.splits)

text \<open>
  Claim C3. Every location that \<^verbatim>\<open>resolveCoordinates\<close> returns carries as latitude
  and longitude the numbers parsed from the two components of the input, whatever
  the providers answer, and is tagged \<^verbatim>\<open>coords\<close>, in the reverse-geocoded case and
  in the fallback case alike. In particular, in every world, resolving
  \<^verbatim>\<open>"51.5074,-0.1278"\<close> with the hint \<^verbatim>\<open>coordinates\<close> succeeds with the latitude
  51.5074, the longitude -0.1278 and the tag \<^verbatim>\<open>coords\<close>.
\<close>

theorem resolveCoordinates_keeps_parsed_coordinates:
  "(resolveCoordinates e locationInput = Inr location \<longrightarrow>
      lat location = parseFloatAt (splitOn 44 (normalized locationInput)) 0 \<and>
      lon location = parseFloatAt (splitOn 44 (normalized locationInput)) 1 \<and>
      resolvedBy location = Coords) \<and>
   (\<exists>location. resolveLocation e (str ''51.5074,-0.1278'') (Some (str ''coordinates'')) = Inr location \<and>
      lat location = toDouble (515074 / 10000) \<and>
      lon location = toDouble (- (1278 / 10000)) \<and>
      resolvedBy location = Coords)"
proof
  show "resolveCoordinates e locationInput = Inr location \<longrightarrow>
      lat location = parseFloatAt (splitOn 44 (normalized locationInput)) 0 \<and>
      lon location = parseFloatAt (splitOn 44 (normalized locationInput)) 1 \<and>
      resolvedBy location = Coords"
    using resolveCoordinates_cases [of e locationInput] by auto
next
  let ?input = "\<lparr>inputType = Coordinates, inputValue = str ''51.5074,-0.1278'',
                 normalized = str ''51.5074,-0.1278''\<rparr>"
  have t: "trim (str ''51.5074,-0.1278'') = str ''51.5074,-0.1278''"
    by (simp add: trim_def isWhiteSpace_def str_def)
  have h: "typeOfHint (str ''coordinates'') = Coordinates"
    by (simp add: typeOfHint_def)
  have a: "Some (str ''coordinates'') \<noteq> Some (str ''auto'')"
    by (simp add: str_def)
  have ne: "str ''coordinates'' \<noteq> []"
    by (simp add: str_def)
  have r: "resolveLocation e (str ''51.5074,-0.1278'') (Some (str ''coordinates'')) =
           resolveCoordinates e ?input"
    using a ne
    by (simp add: resolveLocation_def Let_def truthy_def strOf_def t h normalizeCoordinates_london)
  have p0: "parseFloatAt (splitOn 44 (normalized ?input)) 0 = toDouble (515074 / 10000)"
    unfolding toDouble_51_5074
    by (simp add: splitOn_london parseFloatAt_def parseFloat_51_5074)
  have p1: "parseFloatAt (splitOn 44 (normalized ?input)) 1 = toDouble (- (1278 / 10000))"
    unfolding toDouble_minus_0_1278
    by (simp add: splitOn_london parseFloatAt_def parseFloat_minus_0_1278)
  have "\<not> outOfRange (parseFloatAt (splitOn 44 (normalized ?input)) 0)
               (parseFloatAt (splitOn 44 (normalized ?input)) 1)"
    unfolding p0 p1 toDouble_51_5074 toDouble_minus_0_1278
    by (simp add: outOfRange_def js_gt_def)
  from resolveCoordinates_in_range [OF this, of e]
  show "\<exists>location. resolveLocation e (str ''51.5074,-0.1278'') (Some (str ''coordinates'')) = Inr location \<and>
      lat location = toDouble (515074 / 10000) \<and>
      lon location = toDouble (- (1278 / 10000)) \<and>
      resolvedBy location = Coords"
    unfolding r p0 p1 by blast
qed

theorem resolveCoordinates_keeps_parsed_coordinates_witness:
  "resolveCoordinates londonWorld
     \<lparr>inputType = Coordinates, inputValue = str ''51.5074,-0.1278'',
      normalized = str ''51.5074,-0.1278''\<rparr> =
     Inr \<lparr>name = str ''London, Greater London, England, United Kingdom'',
          country = str ''United Kingdom'', admin1 = str ''England'',
          lat = Fin (7249022107713221 / 140737488355328),
          lon = Fin (- (4604480259023595 / 36028797018963968)),
          resolvedBy = Coords\<rparr> \<and>
   Fin (7249022107713221 / 140737488355328) =
     parseFloatAt (splitOn 44 (str ''51.5074,-0.1278'')) 0 \<and>
   Fin (- (4604480259023595 / 36028797018963968)) =
     parseFloatAt (splitOn 44 (str ''51.5074,-0.1278'')) 1"
proof -
  let ?input = "\<lparr>inputType = Coordinates, inputValue = str ''51.5074,-0.1278'',
                 normalized = str ''51.5074,-0.1278''\<rparr>"
  let ?location = "\<lparr>name = str ''London, Greater London, England, United Kingdom'',
          country = str ''United Kingdom'', admin1 = str ''England'',
          lat = Fin (7249022107713221 / 140737488355328),
          lon = Fin (- (4604480259023595 / 36028797018963968)),
          resolvedBy = Coords\<rparr>"
  have rg: "reverseGeocode londonWorld lat' lon' =
      Inr \<lparr>rg_name = str ''London, Greater London, England, United Kingdom'',
           rg_country = str ''United Kingdom'', rg_admin1 = str ''England'',
           rg_admin2 = Some (str ''Greater London''), rg_admin3 = None\<rparr>" for lat' lon'
    by (simp add: reverseGeocode_def reverseGeocode_nominatim_def nm_reverseGeocode_def
          reverseGeocode_openMeteo_def londonWorld_def silentWorld_def london_def
          isPopulatedPlace_def truthy_def strOf_def orElse_def str_def)
  have e: "resolveCoordinates londonWorld ?input = Inr ?location"
    by (simp add: resolveCoordinates_def splitOn_london parseFloatAt_def parseFloat_51_5074
          parseFloat_minus_0_1278 outOfRange_def js_gt_def rg)
  from resolveCoordinates_keeps_parsed_coordinates [of londonWorld ?input ?location] e
  have "lat ?location = parseFloatAt (splitOn 44 (normalized ?input)) 0 \<and>
        lon ?location = parseFloatAt (splitOn 44 (normalized ?input)) 1"
    by blast
  with e show ?thesis
    by simp
qed

lemma parseFloat_abc: "parseFloat (str ''abc'') = NaN"
  by (simp add: number_eval)

lemma parseFloat_undefined: "parseFloat (str ''undefined'') = NaN"
  by (simp add: number_eval)

lemma parseFloat_200: "parseFloat (str ''200'') = Fin 200"
  by (simp add: number_eval)

lemma normalizeCoordinates_abc_200: "normalizeCoordinates (str ''abc,200'') = str ''abc,200''"
  by (simp add: normalizeCoordinates_def pattern_defs isWhiteSpace_def isDigit_def oneOf_def
        str_def)

lemma normalizeCoordinates_abc: "normalizeCoordinates (str ''abc'') = str ''abc''"
  by (simp add: normalizeCoordinates_def pattern_defs isWhiteSpace_def isDigit_def oneOf_def
        str_def)

lemma resolveLocation_coordinates_hint:
  "resolveLocation e input (Some (str ''coordinates'')) =
     resolveCoordinates e
       \<lparr>inputType = Coordinates, inputValue = trim input,
        normalized = normalizeCoordinates (trim input)\<rparr>"
proof -
  have a: "Some (str ''coordinates'') \<noteq> Some (str ''auto'')"
    by (simp add: str_def)
  have ne: "str ''coordinates'' \<noteq> []"
    by (simp add: str_def)
  have h: "typeOfHint (str ''coordinates'') = Coordinates"
    by (simp add: typeOfHint_def)
  show ?thesis
    using a ne by (simp add: resolveLocation_def Let_def truthy_def strOf_def h)
qed

text \<open>
  Claim C10, as stated, fails: \<^verbatim>\<open>"abc,200"\<close> with the hint \<^verbatim>\<open>coordinates\<close> does not
  parse to two finite numbers, its first component parses to not-a-number, and yet
  the range check raises the invalid-coordinates error, because the comparison
  \<^verbatim>\<open>lon > 180\<close> of the other component is true.
\<close>

theorem resolveCoordinates_NaN_counterexample:
  "parseFloatAt (splitOn 44 (normalizeCoordinates (trim (str ''abc,200'')))) 0 = NaN \<and>
   resolveLocation silentWorld (str ''abc,200'') (Some (str ''coordinates'')) =
     Inl (Error (str ''Invalid coordinates. Latitude must be between -90 and 90, longitude between -180 and 180.''))"
proof -
  have t: "trim (str ''abc,200'') = str ''abc,200''"
    by (simp add: trim_def isWhiteSpace_def str_def)
  have s: "splitOn 44 (str ''abc,200'') = [str ''abc'', str ''200'']"
    by (simp add: str_def)
  have "resolveCoordinates silentWorld
       \<lparr>inputType = Coordinates, inputValue = str ''abc,200'', normalized = str ''abc,200''\<rparr> =
     Inl invalidCoordinates"
    by (simp add: resolveCoordinates_def s parseFloatAt_def parseFloat_abc parseFloat_200
          outOfRange_def js_gt_def)
  then show ?thesis
    by (simp add: resolveLocation_coordinates_hint t normalizeCoordinates_abc_200 s
          parseFloatAt_def parseFloat_abc invalidCoordinates_def)
qed

text \<open>
  Claim C10, amended. The range check does not reject not-a-number: for every input
  to \<^verbatim>\<open>resolveCoordinates\<close> of which a component parses to not-a-number, while the
  other component is not-a-number too or a number within its range, every comparison
  of the guard is false, no invalid-coordinates error is raised, and the location
  that is returned carries the parsed latitude and longitude, one of them
  not-a-number, with the name that the reverse-geocoding chain gives for them. (A
  component that is a number out of its range raises the error also beside a
  not-a-number.)
\<close>

theorem resolveCoordinates_NaN_not_rejected:
  assumes "lat' = parseFloatAt (splitOn 44 (normalized locationInput)) 0"
    and "lon' = parseFloatAt (splitOn 44 (normalized locationInput)) 1"
    and "isNaN lat' \<or> isNaN lon'"
    and "isNaN lat' \<or> (js_ge lat' (Fin (- 90)) \<and> js_le lat' (Fin 90))"
    and "isNaN lon' \<or> (js_ge lon' (Fin (- 180)) \<and> js_le lon' (Fin 180))"
  shows "\<not> js_lt lat' (Fin (- 90)) \<and> \<not> js_gt lat' (Fin 90) \<and>
         \<not> js_lt lon' (Fin (- 180)) \<and> \<not> js_gt lon' (Fin 180) \<and>
         (\<exists>location. resolveCoordinates e locationInput = Inr location \<and>
            lat location = lat' \<and> lon location = lon' \<and>
            (isNaN (lat location) \<or> isNaN (lon location)) \<and>
            resolvedBy location = Coords \<and>
            (\<forall>details. reverseGeocode e lat' lon' = Inr details \<longrightarrow>
               name location = rg_name details))"
proof -
  have la: "\<not> js_lt lat' (Fin (- 90)) \<and> \<not> js_gt lat' (Fin 90)"
    using assms(4) by (cases lat') (auto simp: isNaN_def js_gt_def js_ge_def js_le_def)
  have lo: "\<not> js_lt lon' (Fin (- 180)) \<and> \<not> js_gt lon' (Fin 180)"
    using assms(5) by (cases lon') (auto simp: isNaN_def js_gt_def js_ge_def js_le_def)
  from la lo have "\<not> outOfRange lat' lon'"
    by (simp add: outOfRange_def)
  from resolveCoordinates_in_range [of locationInput e] this assms(1,2,3) la lo
  show ?thesis
    by auto
qed

theorem resolveCoordinates_NaN_not_rejected_witness:
  "NaN = parseFloatAt (splitOn 44 (str ''abc'')) 0 \<and>
   NaN = parseFloatAt (splitOn 44 (str ''abc'')) 1 \<and>
   isNaN NaN \<and>
   \<not> js_lt NaN (Fin (- 90)) \<and> \<not> js_gt NaN (Fin 90) \<and>
   \<not> js_lt NaN (Fin (- 180)) \<and> \<not> js_gt NaN (Fin 180) \<and>
   resolveLocation silentWorld (str ''abc'') (Some (str ''coordinates'')) =
     Inr \<lparr>name = str ''NaN,NaN'', country = str ''Unknown'', admin1 = str ''Unknown'',
          lat = NaN, lon = NaN, resolvedBy = Coords\<rparr>"
proof -
  let ?input = "\<lparr>inputType = Coordinates, inputValue = str ''abc'', normalized = str ''abc''\<rparr>"
  have t: "trim (str ''abc'') = str ''abc''"
    by (simp add: trim_def isWhiteSpace_def str_def)
  have s: "splitOn 44 (str ''abc'') = [str ''abc'']"
    by (simp add: str_def)
  have p0: "NaN = parseFloatAt (splitOn 44 (normalized ?input)) 0"
    by (simp add: s parseFloatAt_def parseFloat_abc)
  have p1: "NaN = parseFloatAt (splitOn 44 (normalized ?input)) 1"
    by (simp add: s parseFloatAt_def parseFloat_undefined)
  have n: "isNaN NaN"
    by (simp add: isNaN_def)
  have rg: "reverseGeocode silentWorld NaN NaN =
      Inr \<lparr>rg_name = str ''NaN,NaN'', rg_country = str ''Unknown'', rg_admin1 = str ''Unknown'',
           rg_admin2 = None, rg_admin3 = None\<rparr>"
    by (simp add: reverseGeocode_def reverseGeocode_nominatim_def nm_reverseGeocode_def
          reverseGeocode_openMeteo_def fallbackReverseGeocode_def silentWorld_def
          coordinateEcho_def coordinatesName_def str_def)
  have c: "\<not> js_lt NaN (Fin (- 90)) \<and> \<not> js_gt NaN (Fin 90) \<and>
           \<not> js_lt NaN (Fin (- 180)) \<and> \<not> js_gt NaN (Fin 180)"
    using resolveCoordinates_NaN_not_rejected [of NaN ?input NaN silentWorld, OF p0 p1] n
    by blast
  have "resolveCoordinates silentWorld ?input =
     Inr \<lparr>name = str ''NaN,NaN'', country = str ''Unknown'', admin1 = str ''Unknown'',
          lat = NaN, lon = NaN, resolvedBy = Coords\<rparr>"
    using c
    by (simp add: resolveCoordinates_def s parseFloatAt_def parseFloat_abc parseFloat_undefined
          outOfRange_def rg)
  then show ?thesis
    using p0 p1 n c by (simp add: resolveLocation_coordinates_hint t normalizeCoordinates_abc)
qed

section \<open>The text chain\<close>

lemma tryQueries_silentWorld: "tryQueries silentWorld queries = None"
  by (induction queries) (simp_all add: searchLocation_def silentWorld_def)

lemma resolveTextLocation_exhausted:
  assumes "openMeteoSearchByName e (normalized locationInput) 1 = Inr results"
    and "noResults results"
    and "tryQueries e (generateQueryVariations e (inputValue locationInput)) = None"
  shows "resolveTextLocation e locationInput =
           Inl (Error (str ''Geocoding service error: '' @ str ''Location not found: '' @
                       inputValue locationInput))"
  using assms
  by (auto simp: resolveTextLocation_def resolveTextLocation_try_def searchWithVariations_def
        noResults_def split: option.splits list.splits)

text \<open>
  Claim C1 does not hold of the code. For the input \<^verbatim>\<open>"Nonexistent Placeqzx123"\<close>
  with the hint \<^verbatim>\<open>city\<close>, in a world in which the primary geocoder has no result and
  every query variation of the fallback fails, \<^verbatim>\<open>resolveLocation\<close> throws a plain
  \<^verbatim>\<open>Error\<close> with the message of a geocoding service error: the
  \<^verbatim>\<open>LocationNotFoundError\<close> is thrown inside the \<^verbatim>\<open>try\<close> block whose \<^verbatim>\<open>catch\<close> wraps
  every error.
\<close>

theorem resolveTextLocation_not_found_is_wrapped:
  "resolveLocation silentWorld (str ''Nonexistent Placeqzx123'') (Some (str ''city'')) =
     Inl (Error (str ''Geocoding service error: Location not found: Nonexistent Placeqzx123'')) \<and>
   resolveLocation silentWorld (str ''Nonexistent Placeqzx123'') (Some (str ''city'')) \<noteq>
     Inl (LocationNotFoundError (str ''Nonexistent Placeqzx123''))"
proof -
  let ?input = "\<lparr>inputType = City, inputValue = str ''Nonexistent Placeqzx123'',
                 normalized = str ''Nonexistent Placeqzx123''\<rparr>"
  have t: "trim (str ''Nonexistent Placeqzx123'') = str ''Nonexistent Placeqzx123''"
    by (simp add: trim_def isWhiteSpace_def str_def)
  have h: "typeOfHint (str ''city'') = City"
    by (simp add: typeOfHint_def str_def)
  have a: "Some (str ''city'') \<noteq> Some (str ''auto'')" "str ''city'' \<noteq> []"
    "Some (str ''city'') \<noteq> Some (str ''coordinates'')"
    "Some (str ''city'') \<noteq> Some (str ''zipcode'')"
    by (simp_all add: str_def)
  have r: "resolveLocation silentWorld (str ''Nonexistent Placeqzx123'') (Some (str ''city'')) =
           resolveTextLocation silentWorld ?input"
    using a by (simp add: resolveLocation_def Let_def truthy_def strOf_def t h)
  have p: "openMeteoSearchByName silentWorld (normalized ?input) 1 = Inr None"
    by (simp add: silentWorld_def)
  have m: "str ''Geocoding service error: '' @ str ''Location not found: '' @
             str ''Nonexistent Placeqzx123'' =
           str ''Geocoding service error: Location not found: Nonexistent Placeqzx123''"
    by (simp add: str_def)
  show ?thesis
    using resolveTextLocation_exhausted [OF p _ tryQueries_silentWorld]
    by (simp add: r noResults_def m)
qed

lemma generateQueryVariations_first:
  "\<exists>queries. generateQueryVariations e query = query # queries"
  by (simp add: generateQueryVariations_def Let_def)

lemma detect_eiffel:
  "detectLocationType toLowerCaseAscii (str ''Eiffel Tower'') =
     \<lparr>inputType = Landmark, inputValue = str ''Eiffel Tower'', normalized = str ''Eiffel Tower''\<rparr>"
proof -
  have t: "trim (str ''Eiffel Tower'') = str ''Eiffel Tower''"
    by (simp add: trim_def isWhiteSpace_def str_def)
  have c: "\<not> isCoordinates (str ''Eiffel Tower'')"
    by (simp add: classifier_eval)
  have z: "\<not> isZipCode (str ''Eiffel Tower'')"
    by (simp add: classifier_eval)
  have l: "isLandmark toLowerCaseAscii (str ''Eiffel Tower'')"
    by (simp add: classifier_eval)
  show ?thesis
    by (simp add: detectLocationType_def Let_def t c z l)
qed

text \<open>
  Claim C6 does not hold of the code. \<^verbatim>\<open>"Eiffel Tower"\<close> is classified as a landmark;
  in a world in which the primary geocoder has no result and the fallback search
  finds the place, \<^verbatim>\<open>resolveLocation\<close> returns the result of the fallback service
  as it is, tagged \<^verbatim>\<open>geocoding\<close> and not \<^verbatim>\<open>landmark\<close>.
\<close>

theorem resolveTextLocation_landmark_by_fallback:
  "inputType (detectLocationType (toLowerCase nominatimWorld) (str ''Eiffel Tower'')) = Landmark \<and>
   (\<exists>location. resolveLocation nominatimWorld (str ''Eiffel Tower'') None = Inr location \<and>
      name location = str ''Paris, Ile-de-France, France'' \<and>
      resolvedBy location = Geocoding)"
proof -
  let ?input = "\<lparr>inputType = Landmark, inputValue = str ''Eiffel Tower'',
                 normalized = str ''Eiffel Tower''\<rparr>"
  have l: "toLowerCase nominatimWorld = toLowerCaseAscii"
    by (simp add: nominatimWorld_def silentWorld_def)
  have t: "trim (str ''Eiffel Tower'') = str ''Eiffel Tower''"
    by (simp add: trim_def isWhiteSpace_def str_def)
  have r: "resolveLocation nominatimWorld (str ''Eiffel Tower'') None =
           resolveTextLocation nominatimWorld ?input"
    by (simp add: resolveLocation_def Let_def truthy_def t l detect_eiffel)
  have n: "fb_buildLocationName eiffelTower = str ''Paris, Ile-de-France, France''"
    by (simp add: fb_buildLocationName_def addressOf_def eiffelTower_def truthy_def strOf_def
          Let_def str_def)
  have s: "\<exists>location. searchLocation nominatimWorld query = Inr location \<and>
             name location = str ''Paris, Ile-de-France, France'' \<and>
             resolvedBy location = Geocoding" for query
    by (simp add: searchLocation_def nominatimWorld_def n)
  obtain queries where q: "generateQueryVariations nominatimWorld (str ''Eiffel Tower'') =
      str ''Eiffel Tower'' # queries"
    using generateQueryVariations_first by blast
  have u: "str ''Paris, Ile-de-France, France'' \<noteq> str ''Unknown Location''"
    by (simp add: str_def)
  obtain location where tq: "tryQueries nominatimWorld (str ''Eiffel Tower'' # queries) = Some location"
    and nm: "name location = str ''Paris, Ile-de-France, France''"
    and tag: "resolvedBy location = Geocoding"
    using s [of "str ''Eiffel Tower''"] u by auto
  have p: "openMeteoSearchByName nominatimWorld query count = Inr None" for query count
    by (simp add: nominatimWorld_def silentWorld_def)
  have "searchWithVariations nominatimWorld (str ''Eiffel Tower'') = Inr location"
    unfolding searchWithVariations_def q tq by simp
  then have "resolveTextLocation_try nominatimWorld ?input = Inr location"
    by (simp add: resolveTextLocation_try_def p)
  then have "resolveTextLocation nominatimWorld ?input = Inr location"
    by (simp add: resolveTextLocation_def)
  then show ?thesis
    using nm tag by (simp add: r l detect_eiffel)
qed

section \<open>The matcher and the language of a pattern\<close>

text \<open>From here on the matcher unfolds only where a proof says so.\<close>

declare run.simps [simp del]

inductive_simps matches_Eps_iff [simp]: "matches Eps s"
inductive_simps matches_Cls_iff [simp]: "matches (Cls p) s"
inductive_simps matches_Seq_iff: "matches (Seq a b) s"
inductive_simps matches_Opt_iff: "matches (Opt a) s"
inductive_simps pieces_Nil_iff [simp]: "matchesPieces [] s cs"
inductive_simps pieces_Cons_iff: "matchesPieces ((g, r) # ps) s cs"

lemma matches_mayContain: "matches r s \<Longrightarrow> c \<in> set s \<Longrightarrow> mayContain r c"
  by (induction rule: matches.induct) auto

lemma run_sound: "rest \<in> set (run r s) \<Longrightarrow> \<exists>m. s = m @ rest \<and> matches r m"
proof (induction r s arbitrary: rest rule: run.induct)
  case (1 s)
  then show ?case by (simp add: run.simps(1))
next
  case (2 p s)
  then show ?case by (auto simp: run.simps(2) split: list.splits if_splits)
next
  case (3 a b s)
  from "3.prems" obtain s' where s': "s' \<in> set (run a s)" "length s' \<le> length s"
    "rest \<in> set (run b s')"
    by (auto simp: run.simps(3) split: if_splits)
  from "3.IH"(1) [OF s'(1)] obtain m1 where m1: "s = m1 @ s'" "matches a m1"
    by blast
  from "3.IH"(2) [OF s'(1) s'(2) s'(3)] obtain m2 where m2: "s' = m2 @ rest" "matches b m2"
    by blast
  from m1 m2 have "s = (m1 @ m2) @ rest \<and> matches (Seq a b) (m1 @ m2)"
    by (simp add: matches_Seq)
  then show ?case by blast
next
  case (4 a s)
  from "4.prems" have "rest \<in> set (run a s) \<or> rest = s"
    by (auto simp: run.simps(4))
  then show ?case
  proof
    assume "rest \<in> set (run a s)"
    from "4.IH" [OF this] show ?thesis
      by (auto intro: matches_Opt_some)
  next
    assume "rest = s"
    then show ?thesis
      by (auto intro: matches_Opt_none)
  qed
next
  case (5 a s)
  from "5.prems" have "rest \<in> set (concat (map (\<lambda>s'. if length s' < length s
      then run (Star a) s' else []) (run a s)) @ [s])"
    by (simp only: run.simps(5) [of a s])
  then have "rest = s \<or>
      (\<exists>s'. s' \<in> set (run a s) \<and> length s' < length s \<and> rest \<in> set (run (Star a) s'))"
    by (auto split: if_splits)
  then show ?case
  proof
    assume "rest = s"
    then show ?thesis
      by (auto intro: matches_Star_none)
  next
    assume "\<exists>s'. s' \<in> set (run a s) \<and> length s' < length s \<and> rest \<in> set (run (Star a) s')"
    then obtain s' where s': "s' \<in> set (run a s)" "length s' < length s"
      "rest \<in> set (run (Star a) s')"
      by blast
    from "5.IH"(1) [OF s'(1)] obtain m1 where m1: "s = m1 @ s'" "matches a m1"
      by blast
    from "5.IH"(2) [OF s'(1) s'(2) s'(3)] obtain m2 where m2: "s' = m2 @ rest"
      "matches (Star a) m2"
      by blast
    from m1 m2 have "s = (m1 @ m2) @ rest \<and> matches (Star a) (m1 @ m2)"
      by (simp add: matches_Star_step)
    then show ?thesis by blast
  qed
qed

lemma run_complete: "matches r m \<Longrightarrow> rest \<in> set (run r (m @ rest))"
proof (induction arbitrary: rest rule: matches.induct)
  case (matches_Seq a u b v)
  have "v @ rest \<in> set (run a (u @ v @ rest))"
    using matches_Seq.IH(1) by simp
  moreover have "rest \<in> set (run b (v @ rest))"
    using matches_Seq.IH(2) by simp
  ultimately show ?case
    by (auto simp: run.simps(3) intro!: bexI [of _ "v @ rest"])
next
  case (matches_Star_step a u v)
  show ?case
  proof (cases "u = []")
    case True
    then show ?thesis
      using matches_Star_step.IH(2) by simp
  next
    case False
    have "v @ rest \<in> set (run a (u @ v @ rest))"
      using matches_Star_step.IH(1) by simp
    moreover have "rest \<in> set (run (Star a) (v @ rest))"
      using matches_Star_step.IH(2) by simp
    moreover have "length (v @ rest) < length (u @ v @ rest)"
      using False by simp
    ultimately have "rest \<in> set (concat (map (\<lambda>s'. if length s' < length (u @ v @ rest)
        then run (Star a) s' else []) (run a (u @ v @ rest))) @ [u @ v @ rest])"
      by (auto intro!: bexI [of _ "v @ rest"])
    then show ?thesis
      by (simp add: run.simps(5) [of a "u @ v @ rest"])
  qed
next
  case (matches_Star_none a)
  show ?case
    by (simp add: run.simps(5) [of a rest])
next
  case matches_Eps
  show ?case
    by (simp add: run.simps(1))
next
  case (matches_Cls p c)
  then show ?case
    by (simp add: run.simps(2))
next
  case (matches_Opt_none a)
  show ?case
    by (simp add: run.simps(4))
next
  case (matches_Opt_some a u)
  then show ?case
    by (simp add: run.simps(4))
qed

lemma test_iff_matches: "test r s \<longleftrightarrow> matches r s"
  using run_sound [of "[]" r s] run_complete [of r s "[]"] by (auto simp: test_def)

lemma firstSome_Some:
  "firstSome f xs = Some y \<Longrightarrow> \<exists>x\<in>set xs. f x = Some y"
  by (induction xs) (auto split: option.splits)

lemma matchGroups_sound: "matchGroups ps s = Some cs \<Longrightarrow> matchesPieces ps s cs"
proof (induction ps arbitrary: s cs)
  case Nil
  then show ?case by (simp split: if_splits)
next
  case (Cons p ps)
  from Cons.prems obtain rest cs' where r: "rest \<in> set (run (snd p) s)"
    and c: "matchGroups ps rest = Some cs'"
    and cs: "cs = (if fst p then take (length s - length rest) s # cs' else cs')"
    by (auto dest!: firstSome_Some split: option.splits)
  from run_sound [OF r] obtain m where m: "s = m @ rest" "matches (snd p) m"
    by blast
  from Cons.IH [OF c] have "matchesPieces ps rest cs'" .
  with m cs show ?case
    by (cases p) (auto simp: pieces_Cons_iff)
qed

section \<open>The classifier\<close>

lemma trim_fixed:
  assumes "s = [] \<or> (\<not> isWhiteSpace (hd s) \<and> \<not> isWhiteSpace (last s))"
  shows "trim s = s"
proof (cases "s = []")
  case True
  then show ?thesis by (simp add: trim_def)
next
  case False
  with assms have h: "\<not> isWhiteSpace (hd s)" and l: "\<not> isWhiteSpace (last s)"
    by auto
  from h have "dropWhile isWhiteSpace s = s"
    by (simp add: dropWhile_eq_self_iff)
  moreover from l have "dropWhile isWhiteSpace (rev s) = rev s"
    by (simp add: dropWhile_eq_self_iff hd_rev)
  ultimately show ?thesis
    by (simp add: trim_def)
qed

lemma last_dropWhile_nonempty:
  "dropWhile P xs \<noteq> [] \<Longrightarrow> last (dropWhile P xs) = last xs"
  by (metis last_appendR takeWhile_dropWhile_id)

lemma trim_ends:
  "trim s = [] \<or> (\<not> isWhiteSpace (hd (trim s)) \<and> \<not> isWhiteSpace (last (trim s)))"
proof (cases "trim s = []")
  case True
  then show ?thesis by simp
next
  case False
  define u where "u = dropWhile isWhiteSpace s"
  define w where "w = dropWhile isWhiteSpace (rev u)"
  have t: "trim s = rev w"
    by (simp add: trim_def u_def w_def)
  with False have w: "w \<noteq> []"
    by simp
  then have u: "u \<noteq> []"
    by (auto simp: w_def)
  have "\<not> isWhiteSpace (hd w)"
    using w unfolding w_def by (rule hd_dropWhile)
  then have l: "\<not> isWhiteSpace (last (trim s))"
    by (simp add: t last_rev)
  have "last w = last (rev u)"
    using w unfolding w_def by (rule last_dropWhile_nonempty)
  then have "hd (trim s) = hd u"
    by (simp add: t hd_rev last_rev)
  moreover have "\<not> isWhiteSpace (hd u)"
    using u unfolding u_def by (rule hd_dropWhile)
  ultimately show ?thesis
    using l by simp
qed

lemma trim_trim: "trim (trim s) = trim s"
  using trim_ends [of s] by (rule trim_fixed)

lemma detectLocationType_trim:
  "detectLocationType lower (trim input) = detectLocationType lower input"
  by (simp add: detectLocationType_def Let_def trim_trim)

lemma matches_needs_class:
  "matches (Seq a (Seq (Cls p) b)) s \<Longrightarrow> \<exists>c\<in>set s. p c"
  by (auto simp: matches_Seq_iff)

lemma matches_needs_inner_class:
  "matches (Seq a (Seq (Seq b (Seq (Cls p) c)) d)) s \<Longrightarrow> \<exists>c\<in>set s. p c"
  by (auto simp: matches_Seq_iff)

lemma decimalPattern_has_comma: "matches decimalPattern s \<Longrightarrow> 44 \<in> set s"
proof -
  assume "matches decimalPattern s"
  then have "\<exists>c\<in>set s. oneOf '','' c"
    unfolding decimalPattern_def seqs.simps by (rule matches_needs_class)
  then show ?thesis
    by (simp add: oneOf_def str_def)
qed

lemma dmsPattern_has_degree: "matches dmsPattern s \<Longrightarrow> 176 \<in> set s"
proof -
  assume "matches dmsPattern s"
  then have "\<exists>c\<in>set s. c = 176"
    unfolding dmsPattern_def dmsPieces_def degreeSign_def list.map snd_conv seqs.simps
    by (rule matches_needs_class)
  then show ?thesis
    by simp
qed

lemma altPattern_has_separator: "matches altPattern s \<Longrightarrow> 44 \<in> set s \<or> 59 \<in> set s"
proof -
  assume "matches altPattern s"
  then have "\<exists>c\<in>set s. oneOf '',;'' c"
    unfolding altPattern_def altPieces_def separator_def list.map snd_conv seqs.simps
    by (rule matches_needs_inner_class)
  then show ?thesis
    by (auto simp: oneOf_def str_def)
qed

lemma isCoordinates_needs_separator:
  "isCoordinates s \<Longrightarrow> 44 \<in> set s \<or> 59 \<in> set s \<or> 176 \<in> set s"
  using decimalPattern_has_comma [of s] dmsPattern_has_degree [of s]
    altPattern_has_separator [of s]
  by (auto simp: isCoordinates_def test_iff_matches)

lemma digits_not_coordinates:
  assumes "\<forall>c\<in>set s. isDigit c \<or> c = 45"
  shows "\<not> isCoordinates s"
proof
  assume "isCoordinates s"
  from isCoordinates_needs_separator [OF this] assms show False
    by (auto simp: isDigit_def)
qed

lemma decimalNumber_chars:
  "matches decimalNumber n \<Longrightarrow> c \<in> set n \<Longrightarrow> isDigit c \<or> c = 45 \<or> c = 46"
  by (drule (1) matches_mayContain)
    (auto simp: decimalNumber_def Plus_def digit_def oneOf_def str_def)

lemma decimalNumber_nonempty: "matches decimalNumber n \<Longrightarrow> n \<noteq> []"
  by (auto simp: decimalNumber_def Plus_def digit_def matches_Seq_iff)

lemma number_char_not_white:
  "isDigit c \<or> c = 45 \<or> c = 46 \<Longrightarrow> \<not> isWhiteSpace c"
  by (auto simp: isDigit_def isWhiteSpace_def)

lemma digit_not_white: "isDigit c \<Longrightarrow> \<not> isWhiteSpace c"
  by (auto simp: isDigit_def isWhiteSpace_def)

lemma decimalPattern_trim:
  assumes "test decimalPattern s"
  shows "trim s = s"
proof -
  from assms have "matches decimalPattern s"
    by (simp add: test_iff_matches)
  then obtain n1 c w n2 where s: "s = n1 @ c # w @ n2" and n1: "matches decimalNumber n1"
    and n2: "matches decimalNumber n2"
    by (auto simp: decimalPattern_def matches_Seq_iff)
  from n1 n2 have ne: "n1 \<noteq> []" "n2 \<noteq> []"
    by (auto dest: decimalNumber_nonempty)
  then have "hd s = hd n1" "last s = last n2"
    by (simp_all add: s)
  moreover have "isDigit (hd n1) \<or> hd n1 = 45 \<or> hd n1 = 46"
    using ne decimalNumber_chars [OF n1, of "hd n1"] by simp
  then have "\<not> isWhiteSpace (hd n1)"
    by (rule number_char_not_white)
  moreover have "isDigit (last n2) \<or> last n2 = 45 \<or> last n2 = 46"
    using ne decimalNumber_chars [OF n2, of "last n2"] by simp
  then have "\<not> isWhiteSpace (last n2)"
    by (rule number_char_not_white)
  ultimately show ?thesis
    by (intro trim_fixed) simp
qed

lemma five_digits:
  assumes "length s = 5" and "list_all isDigit s"
  shows "test usZip s" and "trim s = s"
proof -
  from assms(1) obtain a b c d e where s: "s = [a, b, c, d, e]"
    by (auto simp: eval_nat_numeral length_Suc_conv)
  with assms(2) have d: "isDigit a" "isDigit b" "isDigit c" "isDigit d" "isDigit e"
    by simp_all
  then show "test usZip s"
    by (simp add: s test_def usZip_def digit_def run.simps)
  from d show "trim s = s"
    by (intro trim_fixed) (simp add: s digit_not_white)
qed

lemma five_plus_four_digits:
  assumes "length a = 5" and "list_all isDigit a" and "length b = 4" and "list_all isDigit b"
  shows "test usZip (a @ str ''-'' @ b)" and "trim (a @ str ''-'' @ b) = a @ str ''-'' @ b"
proof -
  from assms(1) obtain a1 a2 a3 a4 a5 where a: "a = [a1, a2, a3, a4, a5]"
    by (auto simp: eval_nat_numeral length_Suc_conv)
  from assms(3) obtain b1 b2 b3 b4 where b: "b = [b1, b2, b3, b4]"
    by (auto simp: eval_nat_numeral length_Suc_conv)
  from assms(2,4) have d: "isDigit a1" "isDigit a2" "isDigit a3" "isDigit a4" "isDigit a5"
    "isDigit b1" "isDigit b2" "isDigit b3" "isDigit b4"
    by (simp_all add: a b)
  then show "test usZip (a @ str ''-'' @ b)"
    by (simp add: a b test_def usZip_def digit_def oneOf_def str_def run.simps)
  from d show "trim (a @ str ''-'' @ b) = a @ str ''-'' @ b"
    by (intro trim_fixed) (simp add: a b str_def digit_not_white)
qed

lemma nine_digits:
  assumes "length s = 9" and "list_all isDigit s"
  shows "test genericZip s" and "trim s = s"
proof -
  from assms(1) obtain a b c d e f g h i where s: "s = [a, b, c, d, e, f, g, h, i]"
    by (auto simp: eval_nat_numeral length_Suc_conv)
  with assms(2) have d: "isDigit a" "isDigit b" "isDigit c" "isDigit d" "isDigit e"
    "isDigit f" "isDigit g" "isDigit h" "isDigit i"
    by simp_all
  then show "test genericZip s"
    by (simp add: s test_def genericZip_def between_def digit_def run.simps)
  from d show "trim s = s"
    by (intro trim_fixed) (simp add: s digit_not_white)
qed

text \<open>
  Claim C4. \<^verbatim>\<open>detectLocationType\<close> is a total function that never throws: on the
  trimmed input it tests for coordinates, then for a postal code, then for a landmark
  keyword, then for the shape of a city, and the first test that holds gives the
  type, \<^verbatim>\<open>address\<close> if none does; \<^verbatim>\<open>resolveLocation\<close> classifies by it when there is
  no hint or the hint is \<^verbatim>\<open>auto\<close>. So every string that matches the decimal pattern
  \<^verbatim>\<open>^-?\d+\.?\d*,\s*-?\d+\.?\d*$\<close> is classified as coordinates, and every string
  of five digits, of five digits, a hyphen and four digits, or of nine digits, as a
  postal code.
\<close>

theorem detectLocationType_priority:
  "inputType (detectLocationType lower input) =
     (if isCoordinates (trim input) then Coordinates
      else if isZipCode (trim input) then Zipcode
      else if isLandmark lower (trim input) then Landmark
      else if isCity (trim input) then City
      else Address) \<and>
   inputValue (detectLocationType lower input) = trim input \<and>
   (locationType = None \<or> locationType = Some (str ''auto'') \<longrightarrow>
      resolveLocation e input locationType =
        resolveByType e (detectLocationType (env.toLowerCase e) input)) \<and>
   (test decimalPattern input \<longrightarrow>
      inputType (detectLocationType lower input) = Coordinates) \<and>
   (length input = 5 \<and> list_all isDigit input \<longrightarrow>
      inputType (detectLocationType lower input) = Zipcode) \<and>
   (length a = 5 \<and> list_all isDigit a \<and> length b = 4 \<and> list_all isDigit b \<longrightarrow>
      inputType (detectLocationType lower (a @ str ''-'' @ b)) = Zipcode) \<and>
   (length a = 5 \<and> list_all isDigit a \<and> length b = 4 \<and> list_all isDigit b \<longrightarrow>
      inputType (detectLocationType lower (a @ b)) = Zipcode)"
proof (intro conjI impI)
  show "inputType (detectLocationType lower input) =
     (if isCoordinates (trim input) then Coordinates
      else if isZipCode (trim input) then Zipcode
      else if isLandmark lower (trim input) then Landmark
      else if isCity (trim input) then City
      else Address)"
    by (simp add: detectLocationType_def Let_def)
  show "inputValue (detectLocationType lower input) = trim input"
    by (simp add: detectLocationType_def Let_def)
next
  assume "locationType = None \<or> locationType = Some (str ''auto'')"
  then have f: "(truthy locationType \<and> locationType \<noteq> Some (str ''auto'')) = False"
    by (auto simp: truthy_def)
  show "resolveLocation e input locationType =
      resolveByType e (detectLocationType (env.toLowerCase e) input)"
    by (simp only: resolveLocation_def Let_def f if_False detectLocationType_trim)
next
  assume t: "test decimalPattern input"
  then have "isCoordinates (trim input)"
    by (simp add: decimalPattern_trim isCoordinates_def)
  then show "inputType (detectLocationType lower input) = Coordinates"
    by (simp add: detectLocationType_def Let_def)
next
  assume d: "length input = 5 \<and> list_all isDigit input"
  then have "\<not> isCoordinates input"
    by (intro digits_not_coordinates) (simp add: list_all_iff)
  moreover from d have "isZipCode input" "trim input = input"
    using five_digits [of input] by (simp_all add: isZipCode_def)
  ultimately show "inputType (detectLocationType lower input) = Zipcode"
    by (simp add: detectLocationType_def Let_def)
next
  assume d: "length a = 5 \<and> list_all isDigit a \<and> length b = 4 \<and> list_all isDigit b"
  then have "\<not> isCoordinates (a @ str ''-'' @ b)"
    by (intro digits_not_coordinates) (auto simp: list_all_iff str_def)
  moreover from d have "isZipCode (a @ str ''-'' @ b)"
    "trim (a @ str ''-'' @ b) = a @ str ''-'' @ b"
    using five_plus_four_digits [of a b] by (simp_all add: isZipCode_def)
  ultimately show "inputType (detectLocationType lower (a @ str ''-'' @ b)) = Zipcode"
    by (simp add: detectLocationType_def Let_def)
next
  assume d: "length a = 5 \<and> list_all isDigit a \<and> length b = 4 \<and> list_all isDigit b"
  then have n: "length (a @ b) = 9" "list_all isDigit (a @ b)"
    by simp_all
  from d have "\<not> isCoordinates (a @ b)"
    by (intro digits_not_coordinates) (auto simp: list_all_iff)
  moreover from n have "isZipCode (a @ b)" "trim (a @ b) = a @ b"
    using nine_digits [of "a @ b"] by (simp_all add: isZipCode_def)
  ultimately show "inputType (detectLocationType lower (a @ b)) = Zipcode"
    by (simp add: detectLocationType_def Let_def)
qed

theorem detectLocationType_priority_witness:
  "test decimalPattern (str ''51.5074,-0.1278'') \<and>
   inputType (detectLocationType toLowerCaseAscii (str ''51.5074,-0.1278'')) = Coordinates \<and>
   length (str ''12345'') = 5 \<and> list_all isDigit (str ''12345'') \<and>
   inputType (detectLocationType toLowerCaseAscii (str ''12345'')) = Zipcode \<and>
   length (str ''6789'') = 4 \<and> list_all isDigit (str ''6789'') \<and>
   inputType (detectLocationType toLowerCaseAscii (str ''12345'' @ str ''-'' @ str ''6789'')) =
     Zipcode \<and>
   inputType (detectLocationType toLowerCaseAscii (str ''12345'' @ str ''6789'')) = Zipcode \<and>
   resolveLocation zipWorld (str ''12345'') None =
     resolveByType zipWorld (detectLocationType toLowerCaseAscii (str ''12345''))"
proof -
  have t: "test decimalPattern (str ''51.5074,-0.1278'')"
    by (simp add: test_def pattern_defs isWhiteSpace_def isDigit_def oneOf_def str_def run.simps)
  have five: "length (str ''12345'') = 5 \<and> list_all isDigit (str ''12345'')"
    by (simp add: str_def isDigit_def)
  have four: "length (str ''6789'') = 4 \<and> list_all isDigit (str ''6789'')"
    by (simp add: str_def isDigit_def)
  have l: "env.toLowerCase zipWorld = toLowerCaseAscii"
    by (simp add: zipWorld_def silentWorld_def)
  note c = detectLocationType_priority [of toLowerCaseAscii _ None zipWorld]
  have 1: "inputType (detectLocationType toLowerCaseAscii (str ''51.5074,-0.1278'')) = Coordinates"
    using c [of "str ''51.5074,-0.1278''"] t by blast
  have 2: "inputType (detectLocationType toLowerCaseAscii (str ''12345'')) = Zipcode"
    using c [of "str ''12345''"] five by blast
  have 3: "inputType (detectLocationType toLowerCaseAscii (str ''12345'' @ str ''-'' @ str ''6789'')) =
     Zipcode"
    using c [of "str ''12345''" "str ''12345''" "str ''6789''"] five four by blast
  have 5: "inputType (detectLocationType toLowerCaseAscii (str ''12345'' @ str ''6789'')) = Zipcode"
    using c [of "str ''12345''" "str ''12345''" "str ''6789''"] five four by blast
  have 4: "resolveLocation zipWorld (str ''12345'') None =
     resolveByType zipWorld (detectLocationType toLowerCaseAscii (str ''12345''))"
    using c [of "str ''12345''"] unfolding l by blast
  from t five four 1 2 3 4 5 show ?thesis
    by blast
qed

section \<open>Normalizing coordinates\<close>


lemma digitsOf_digits: "c \<in> set (digitsOf n) \<Longrightarrow> isDigit c"
proof (induction n arbitrary: c rule: digitsOf.induct)
  case (1 n)
  show ?case
  proof (cases "n < 10")
    case True
    then have "digitsOf n = [48 + n]"
      by (subst digitsOf.simps) simp
    with "1.prems" True show ?thesis
      by (simp add: isDigit_def)
  next
    case False
    then have "digitsOf n = digitsOf (n div 10) @ [48 + n mod 10]"
      by (subst digitsOf.simps) simp
    with "1.prems" have "c \<in> set (digitsOf (n div 10)) \<or> c = 48 + n mod 10"
      by auto
    then show ?thesis
    proof
      assume "c \<in> set (digitsOf (n div 10))"
      with False "1.IH" show ?thesis
        by simp
    next
      assume "c = 48 + n mod 10"
      then show ?thesis
        by (simp add: isDigit_def)
    qed
  qed
qed

lemma formatDigits_chars:
  assumes "\<forall>c\<in>set ds. isDigit c" and "c \<in> set (formatDigits ds n)"
  shows "isDigit c \<or> c = 43 \<or> c = 45 \<or> c = 46 \<or> c = 101"
proof -
  have z: "isDigit 48"
    by (simp add: isDigit_def)
  have t: "x \<in> set (take k ds) \<Longrightarrow> isDigit x" for x k
    using assms(1) by (auto dest: in_set_takeD)
  have d: "x \<in> set (drop k ds) \<Longrightarrow> isDigit x" for x k
    using assms(1) by (auto dest: in_set_dropD)
  from assms(2) show ?thesis
    using assms(1) z t d digitsOf_digits
    by (auto simp: formatDigits_def Let_def str_def isDigit_def split: if_splits)
qed

lemma positiveToString_chars:
  assumes "c \<in> set (positiveToString q)"
  shows "isDigit c \<or> c = 43 \<or> c = 45 \<or> c = 46 \<or> c = 101"
proof -
  obtain s n where "shortestDigits q = (s, n)"
    by (cases "shortestDigits q")
  with assms have "c \<in> set (formatDigits (digitsOf s) n)"
    by (simp add: positiveToString_def)
  moreover have "\<forall>c\<in>set (digitsOf s). isDigit c"
    using digitsOf_digits by blast
  ultimately show ?thesis
    by (rule formatDigits_chars [rotated])
qed

lemma numberToString_chars:
  assumes "c \<in> set (numberToString x)"
  shows "isDigit c \<or> c = 43 \<or> c = 45 \<or> c = 46 \<or> c = 101 \<or> oneOf ''InfinityNaN'' c"
proof (cases x)
  case NaN
  with assms show ?thesis
    by (auto simp: oneOf_def str_def)
next
  case PosInfinity
  with assms show ?thesis
    by (auto simp: oneOf_def str_def)
next
  case NegInfinity
  with assms show ?thesis
    by (auto simp: oneOf_def str_def)
next
  case (Fin q)
  with assms have "c = 48 \<or> c = 45 \<or> c \<in> set (positiveToString (- q)) \<or>
      c \<in> set (positiveToString q)"
    by (auto simp: str_def split: if_splits)
  then show ?thesis
    using positiveToString_chars [of c q] positiveToString_chars [of c "- q"]
    by (auto simp: isDigit_def)
qed

lemma numberToString_clean:
  assumes "c \<in> set (numberToString x)"
  shows "\<not> isWhiteSpace c \<and> c \<noteq> 44 \<and> c \<noteq> 59 \<and> c \<noteq> 176"
  using numberToString_chars [OF assms]
  by (auto simp: isDigit_def isWhiteSpace_def oneOf_def str_def)

lemma decimalNumber_clean:
  assumes "matches decimalNumber n" and "c \<in> set n"
  shows "\<not> isWhiteSpace c \<and> c \<noteq> 44 \<and> c \<noteq> 59 \<and> c \<noteq> 176"
  using decimalNumber_chars [OF assms]
  by (auto simp: isDigit_def isWhiteSpace_def)

lemma separator_chars:
  "matches separator m \<Longrightarrow> c \<in> set m \<Longrightarrow> isWhiteSpace c \<or> c = 44 \<or> c = 59"
  by (drule (1) matches_mayContain)
    (auto simp: separator_def whiteSpace_def oneOf_def str_def)

lemma separator_nonempty: "matches separator m \<Longrightarrow> m \<noteq> []"
  by (auto simp: separator_def matches_Seq_iff)

lemma split_unique:
  assumes eq: "a @ m @ b = a' @ m' @ b'"
    and a: "\<forall>c\<in>set a. \<not> P c" and a': "\<forall>c\<in>set a'. \<not> P c"
    and b: "\<forall>c\<in>set b. \<not> P c" and b': "\<forall>c\<in>set b'. \<not> P c"
    and m: "m \<noteq> []" "\<forall>c\<in>set m. P c" and m': "m' \<noteq> []" "\<forall>c\<in>set m'. P c"
  shows "a = a' \<and> m = m' \<and> b = b'"
proof -
  have front: "takeWhile (\<lambda>c. \<not> P c) (x @ y @ z) = x"
    if "\<forall>c\<in>set x. \<not> P c" "y \<noteq> []" "\<forall>c\<in>set y. P c" for x y z :: "'a list"
  proof -
    from that(2,3) obtain c cs where "y = c # cs" "P c"
      by (cases y) auto
    with that(1) show ?thesis
      by simp
  qed
  have middle: "takeWhile P (y @ z) = y"
    if "\<forall>c\<in>set y. P c" "\<forall>c\<in>set z. \<not> P c" for y z :: "'a list"
    using that by (cases z) auto
  have "a = a'"
    using front [OF a m, of b] front [OF a' m', of b'] eq by simp
  with eq have eq': "m @ b = m' @ b'"
    by simp
  have "m = m'"
    using middle [OF m(2) b] middle [OF m'(2) b'] eq' by simp
  with eq' \<open>a = a'\<close> show ?thesis
    by simp
qed

lemma altPieces_captures:
  assumes "matchGroups altPieces s = Some cs"
  shows "\<exists>g1 m g2. cs = [g1, g2] \<and> s = g1 @ m @ g2 \<and> matches decimalNumber g1 \<and>
           matches separator m \<and> matches decimalNumber g2"
  using matchGroups_sound [OF assms]
  by (auto simp: altPieces_def pieces_Cons_iff)

lemma dmsPieces_has_degree:
  assumes "matchGroups dmsPieces s = Some cs"
  shows "176 \<in> set s"
proof -
  from matchGroups_sound [OF assms]
  obtain m1 m2 rest where "s = m1 @ m2 @ rest" "matches degreeSign m2"
    unfolding dmsPieces_def by (auto simp: pieces_Cons_iff [of _ _ "_ # _"])
  then show ?thesis
    by (auto simp: degreeSign_def)
qed

text \<open>Two strings without separating characters and degree signs, joined by a comma,
  are a fixed point.\<close>

lemma normalizeCoordinates_joined:
  assumes a: "\<forall>c\<in>set a. \<not> isWhiteSpace c \<and> c \<noteq> 44 \<and> c \<noteq> 59 \<and> c \<noteq> 176"
    and b: "\<forall>c\<in>set b. \<not> isWhiteSpace c \<and> c \<noteq> 44 \<and> c \<noteq> 59 \<and> c \<noteq> 176"
  shows "normalizeCoordinates (a @ str '','' @ b) = a @ str '','' @ b"
proof -
  let ?P = "\<lambda>c. isWhiteSpace c \<or> c = 44 \<or> c = 59"
  let ?s = "a @ str '','' @ b"
  have comma: "str '','' = [44]"
    by (simp add: str_def)
  have "176 \<notin> set ?s"
    using a b by (auto simp: comma)
  then have dms: "matchGroups dmsPieces ?s = None"
    using dmsPieces_has_degree [of ?s] by (cases "matchGroups dmsPieces ?s") auto
  show ?thesis
  proof (cases "matchGroups altPieces ?s")
    case None
    with dms show ?thesis
      by (simp add: normalizeCoordinates_def)
  next
    case (Some cs)
    from altPieces_captures [OF this] obtain g1 m g2 where cs: "cs = [g1, g2]"
      and s: "?s = g1 @ m @ g2" and g1: "matches decimalNumber g1"
      and m: "matches separator m" and g2: "matches decimalNumber g2"
      by blast
    have "a = g1 \<and> [44] = m \<and> b = g2"
    proof (rule split_unique [where P = ?P])
      show "a @ [44] @ b = g1 @ m @ g2"
        using s by (simp add: comma)
      show "\<forall>c\<in>set a. \<not> ?P c" "\<forall>c\<in>set b. \<not> ?P c"
        using a b by auto
      show "\<forall>c\<in>set g1. \<not> ?P c" "\<forall>c\<in>set g2. \<not> ?P c"
        using decimalNumber_clean [OF g1] decimalNumber_clean [OF g2] by auto
      show "m \<noteq> []" "\<forall>c\<in>set m. ?P c"
        using separator_nonempty [OF m] separator_chars [OF m] by auto
    qed simp_all
    with dms Some cs show ?thesis
      by (simp add: normalizeCoordinates_def)
  qed
qed

lemma normalizeCoordinates_shape:
  "normalizeCoordinates x = x \<or>
   (\<exists>a b. normalizeCoordinates x = a @ str '','' @ b \<and>
      (\<forall>c\<in>set a. \<not> isWhiteSpace c \<and> c \<noteq> 44 \<and> c \<noteq> 59 \<and> c \<noteq> 176) \<and>
      (\<forall>c\<in>set b. \<not> isWhiteSpace c \<and> c \<noteq> 44 \<and> c \<noteq> 59 \<and> c \<noteq> 176))"
proof -
  have number: "\<exists>a b. numberToString p @ str '','' @ numberToString q = a @ str '','' @ b \<and>
      (\<forall>c\<in>set a. \<not> isWhiteSpace c \<and> c \<noteq> 44 \<and> c \<noteq> 59 \<and> c \<noteq> 176) \<and>
      (\<forall>c\<in>set b. \<not> isWhiteSpace c \<and> c \<noteq> 44 \<and> c \<noteq> 59 \<and> c \<noteq> 176)" for p q
    using numberToString_clean by blast
  have alt: "(case matchGroups altPieces x of Some [a, b] \<Rightarrow> a @ str '','' @ b | _ \<Rightarrow> x) = x \<or>
     (\<exists>a b. (case matchGroups altPieces x of Some [a, b] \<Rightarrow> a @ str '','' @ b | _ \<Rightarrow> x) =
        a @ str '','' @ b \<and>
      (\<forall>c\<in>set a. \<not> isWhiteSpace c \<and> c \<noteq> 44 \<and> c \<noteq> 59 \<and> c \<noteq> 176) \<and>
      (\<forall>c\<in>set b. \<not> isWhiteSpace c \<and> c \<noteq> 44 \<and> c \<noteq> 59 \<and> c \<noteq> 176))"
  proof (cases "matchGroups altPieces x")
    case None
    then show ?thesis by simp
  next
    case (Some cs)
    from altPieces_captures [OF this] obtain g1 m g2 where cs: "cs = [g1, g2]"
      and g1: "matches decimalNumber g1" and g2: "matches decimalNumber g2"
      by blast
    have "(\<forall>c\<in>set g1. \<not> isWhiteSpace c \<and> c \<noteq> 44 \<and> c \<noteq> 59 \<and> c \<noteq> 176) \<and>
          (\<forall>c\<in>set g2. \<not> isWhiteSpace c \<and> c \<noteq> 44 \<and> c \<noteq> 59 \<and> c \<noteq> 176)"
      using decimalNumber_clean [OF g1] decimalNumber_clean [OF g2] by blast
    with Some cs show ?thesis
      by auto
  qed
  have "normalizeCoordinates x =
      (case matchGroups altPieces x of Some [a, b] \<Rightarrow> a @ str '','' @ b | _ \<Rightarrow> x) \<or>
    (\<exists>p q. normalizeCoordinates x = numberToString p @ str '','' @ numberToString q)"
    unfolding normalizeCoordinates_def Let_def
    by (auto split: option.split list.split)
  then show ?thesis
  proof
    assume "normalizeCoordinates x =
      (case matchGroups altPieces x of Some [a, b] \<Rightarrow> a @ str '','' @ b | _ \<Rightarrow> x)"
    with alt show ?thesis
      by simp
  next
    assume "\<exists>p q. normalizeCoordinates x = numberToString p @ str '','' @ numberToString q"
    then obtain p q where "normalizeCoordinates x =
        numberToString p @ str '','' @ numberToString q"
      by blast
    with number [of p q] show ?thesis
      by simp
  qed
qed

text \<open>
  Claim C8. \<^verbatim>\<open>normalizeCoordinates\<close> is idempotent: for every string, normalizing
  the normalized string gives the normalized string again.
\<close>

theorem normalizeCoordinates_idempotent:
  "normalizeCoordinates (normalizeCoordinates x) = normalizeCoordinates x"
proof -
  from normalizeCoordinates_shape [of x] show ?thesis
  proof
    assume "normalizeCoordinates x = x"
    then show ?thesis by simp
  next
    assume "\<exists>a b. normalizeCoordinates x = a @ str '','' @ b \<and>
      (\<forall>c\<in>set a. \<not> isWhiteSpace c \<and> c \<noteq> 44 \<and> c \<noteq> 59 \<and> c \<noteq> 176) \<and>
      (\<forall>c\<in>set b. \<not> isWhiteSpace c \<and> c \<noteq> 44 \<and> c \<noteq> 59 \<and> c \<noteq> 176)"
    then obtain a b where n: "normalizeCoordinates x = a @ str '','' @ b"
      and a: "\<forall>c\<in>set a. \<not> isWhiteSpace c \<and> c \<noteq> 44 \<and> c \<noteq> 59 \<and> c \<noteq> 176"
      and b: "\<forall>c\<in>set b. \<not> isWhiteSpace c \<and> c \<noteq> 44 \<and> c \<noteq> 59 \<and> c \<noteq> 176"
      by blast
    from normalizeCoordinates_joined [OF a b] show ?thesis
      by (simp add: n)
  qed
qed

lemma normalizeCoordinates_alternate:
  "normalizeCoordinates (str ''5 ; 6'') = str ''5,6''"
  by (simp add: normalizeCoordinates_def pattern_defs isWhiteSpace_def isDigit_def oneOf_def
        str_def run.simps)

lemma normalizeCoordinates_dms:
  "normalizeCoordinates
     (str ''23'' @ [176] @ str ''33'' @ [39] @ str ''1.8'' @ [34] @ str ''S 46'' @ [176] @
      str ''37'' @ [39] @ str ''59.9'' @ [34] @ str ''W'') =
   str ''-23.5505,-46.63330555555556''"
proof -
  have m: "matchGroups dmsPieces
     (str ''23'' @ [176] @ str ''33'' @ [39] @ str ''1.8'' @ [34] @ str ''S 46'' @ [176] @
      str ''37'' @ [39] @ str ''59.9'' @ [34] @ str ''W'') =
     Some [str ''23'', str ''33'', str ''1.8'', str ''S'', str ''46'', str ''37'', str ''59.9'',
           str ''W'']"
    by (simp add: pattern_defs isWhiteSpace_def isDigit_def oneOf_def str_def run.simps)
  have p: "parseFloat (str ''23'') = Fin 23" "parseFloat (str ''33'') = Fin 33"
    "parseFloat (str ''1.8'') = Fin (8106479329266893 / 4503599627370496)"
    "parseFloat (str ''46'') = Fin 46" "parseFloat (str ''37'') = Fin 37"
    "parseFloat (str ''59.9'') = Fin (8430175552484147 / 140737488355328)"
    by (simp_all add: number_eval)
  have lat: "js_add (js_add (Fin 23) (js_div (Fin 33) (Fin 60)))
               (js_div (Fin (8106479329266893 / 4503599627370496)) (Fin 3600)) =
             Fin (414304777439019 / 17592186044416)"
    by (simp add: number_eval)
  have lon: "js_add (js_add (Fin 46) (js_div (Fin 37) (Fin 60)))
               (js_div (Fin (8430175552484147 / 140737488355328)) (Fin 3600)) =
             Fin (6563054297595453 / 140737488355328)"
    by (simp add: number_eval)
  have s: "numberToString (Fin (- (414304777439019 / 17592186044416))) = str ''-23.5505''"
    "numberToString (Fin (- (6563054297595453 / 140737488355328))) = str ''-46.63330555555556''"
    by (simp_all add: number_eval)
  have e: "(str ''1.8'' = []) = False" "(str ''59.9'' = []) = False"
    "toUpperCaseAscii (str ''S'') = str ''S''"
    "toUpperCaseAscii (str ''W'') = str ''W''"
    "str ''-23.5505'' @ str '','' @ str ''-46.63330555555556'' = str ''-23.5505,-46.63330555555556''"
    by (simp_all add: str_def toUpperCaseAscii_def)
  show ?thesis
    unfolding normalizeCoordinates_def m
    by (simp only: option.case list.case Let_def p e if_False if_True lat lon js_neg.simps s
          simp_thms)
qed

theorem normalizeCoordinates_idempotent_witness:
  "normalizeCoordinates (str ''5 ; 6'') = str ''5,6'' \<and>
   normalizeCoordinates (str ''5,6'') = str ''5,6'' \<and>
   normalizeCoordinates (str ''-23.5505,-46.63330555555556'') =
     str ''-23.5505,-46.63330555555556''"
proof -
  have "normalizeCoordinates (str ''5,6'') = str ''5,6''"
    using normalizeCoordinates_idempotent [of "str ''5 ; 6''"]
    unfolding normalizeCoordinates_alternate .
  moreover have "normalizeCoordinates (str ''-23.5505,-46.63330555555556'') =
     str ''-23.5505,-46.63330555555556''"
    using normalizeCoordinates_idempotent
      [of "str ''23'' @ [176] @ str ''33'' @ [39] @ str ''1.8'' @ [34] @ str ''S 46'' @ [176] @
           str ''37'' @ [39] @ str ''59.9'' @ [34] @ str ''W''"]
    unfolding normalizeCoordinates_dms .
  ultimately show ?thesis
    using normalizeCoordinates_alternate by simp
qed

end
